theory Spec2Isabelle
  imports Main "HOL-Library.Sublist"
begin

section \<open>Python strings\<close>

text \<open>
  A Python \<open>str\<close> is modelled as a \<open>string\<close>: one \<open>char\<close> per code point, for code
  points below 256. The two status glyphs of the success messages lie outside that range;
  they are constants of the source and stand here as the bytes the source files hold.
\<close>

definition py_join :: "string \<Rightarrow> string list \<Rightarrow> string" where
  "py_join sep xs = concat (case xs of [] \<Rightarrow> [] | y # ys \<Rightarrow> y # map (\<lambda>s. sep @ s) ys)"

definition digit_char :: "nat \<Rightarrow> char" where
  "digit_char d = ''0123456789'' ! d"

fun py_str_nat :: "nat \<Rightarrow> string" where
  "py_str_nat n = (if n < 10 then [digit_char n] else py_str_nat (n div 10) @ [digit_char (n mod 10)])"

declare py_str_nat.simps [simp del]

text \<open>\<open>str(i)\<close> of a Python integer, as an f-string interpolates it.\<close>

definition py_str_int :: "int \<Rightarrow> string" where
  "py_str_int i = (if i < 0 then CHR ''-'' # py_str_nat (nat (- i)) else py_str_nat (nat i))"

text \<open>
  \<open>str.lower()\<close> on code points below 256: the ASCII capitals and the Latin-1 capitals
  (U+00C0 to U+00DE without the multiplication sign U+00D7) move up by 32.
\<close>

definition py_lower_char :: "char \<Rightarrow> char" where
  "py_lower_char c =
     (let n = (of_char c :: nat)
      in if (65 \<le> n \<and> n \<le> 90) \<or> (192 \<le> n \<and> n \<le> 222 \<and> n \<noteq> 215) then char_of (n + 32) else c)"

definition py_lower :: "string \<Rightarrow> string" where
  "py_lower s = map py_lower_char s"

text \<open>\<open>s.replace(' ', r)\<close>: every space becomes the string \<open>r\<close>.\<close>

definition py_replace_space :: "string \<Rightarrow> string \<Rightarrow> string" where
  "py_replace_space r s = concat (map (\<lambda>c. if c = CHR '' '' then r else [c]) s)"

text \<open>\<open>a in b\<close> on strings: \<open>a\<close> occurs in \<open>b\<close> as a contiguous run.\<close>

fun py_in_str :: "string \<Rightarrow> string \<Rightarrow> bool" where
  "py_in_str a [] = (a = [])"
| "py_in_str a (c # cs) = (take (length a) (c # cs) = a \<or> py_in_str a cs)"

text \<open>The first line of a text, and what follows its first line break.\<close>

definition first_line :: "string \<Rightarrow> string" where
  "first_line s = takeWhile (\<lambda>c. c \<noteq> CHR 0x0A) s"

definition after_first_line :: "string \<Rightarrow> string" where
  "after_first_line s = drop 1 (dropWhile (\<lambda>c. c \<noteq> CHR 0x0A) s)"

section \<open>Exceptions and dynamically typed values\<close>

text \<open>
  A raised exception is a value: its class name and the text \<open>str(e)\<close> gives. The type
  stands for the instances of Python's \<open>Exception\<close>, which is what the \<open>except Exception\<close>
  clause closing every handler names. Interpreter signals that are not instances of
  \<open>Exception\<close> (\<open>KeyboardInterrupt\<close>, \<open>SystemExit\<close>) are not modelled.
\<close>

datatype exn = Exn string string

fun exn_text :: "exn \<Rightarrow> string" where
  "exn_text (Exn c m) = m"

text \<open>
  The tool arguments of the MCP server are \<open>Dict[str, Any]\<close> and the log file holds
  whatever JSON it holds, so the handlers work on untyped values. A dict is an association
  list in insertion order with distinct keys. (JSON numbers with a fraction are left out.)
\<close>

datatype pyval =
    PNone
  | PBool bool
  | PInt int
  | PStr string
  | PList "pyval list"
  | PDict "(string \<times> pyval) list"

type_synonym arguments = "string \<rightharpoonup> pyval"

text \<open>\<open>arguments.get(key, default)\<close>\<close>

definition args_get :: "arguments \<Rightarrow> string \<Rightarrow> pyval \<Rightarrow> pyval" where
  "args_get arguments k d = (case arguments k of None \<Rightarrow> d | Some v \<Rightarrow> v)"

definition bind_res :: "exn + 'a \<Rightarrow> ('a \<Rightarrow> exn + 'b) \<Rightarrow> exn + 'b" where
  "bind_res m f = (case m of Inl e \<Rightarrow> Inl e | Inr x \<Rightarrow> f x)"

fun map_res :: "('a \<Rightarrow> exn + 'b) \<Rightarrow> 'a list \<Rightarrow> exn + 'b list" where
  "map_res f [] = Inr []"
| "map_res f (x # xs) =
     bind_res (f x) (\<lambda>y. bind_res (map_res f xs) (\<lambda>ys. Inr (y # ys)))"

fun py_type_name :: "pyval \<Rightarrow> string" where
  "py_type_name PNone = ''NoneType''"
| "py_type_name (PBool b) = ''bool''"
| "py_type_name (PInt i) = ''int''"
| "py_type_name (PStr s) = ''str''"
| "py_type_name (PList xs) = ''list''"
| "py_type_name (PDict kvs) = ''dict''"

definition py_quote :: "string \<Rightarrow> string" where
  "py_quote s = [CHR 0x27] @ s @ [CHR 0x27]"

definition not_subscriptable :: "pyval \<Rightarrow> exn" where
  "not_subscriptable v = Exn ''TypeError'' (py_quote (py_type_name v) @ '' object is not subscriptable'')"

definition no_attribute :: "pyval \<Rightarrow> string \<Rightarrow> exn" where
  "no_attribute v a =
     Exn ''AttributeError'' (py_quote (py_type_name v) @ '' object has no attribute '' @ py_quote a)"

definition unhashable_slice :: exn where
  "unhashable_slice = Exn ''TypeError'' (''unhashable type: '' @ py_quote ''slice'')"

text \<open>Truth value of a value in \<open>if v:\<close> and \<open>if not v:\<close>.\<close>

fun py_truthy :: "pyval \<Rightarrow> bool" where
  "py_truthy PNone = False"
| "py_truthy (PBool b) = b"
| "py_truthy (PInt i) = (i \<noteq> 0)"
| "py_truthy (PStr s) = (s \<noteq> [])"
| "py_truthy (PList xs) = (xs \<noteq> [])"
| "py_truthy (PDict kvs) = (kvs \<noteq> [])"

text \<open>\<open>v[:n]\<close> for a constant \<open>n\<close>: a prefix of a string or a list, a \<open>TypeError\<close> otherwise.\<close>

fun py_slice_to :: "nat \<Rightarrow> pyval \<Rightarrow> exn + pyval" where
  "py_slice_to n (PStr s) = Inr (PStr (take n s))"
| "py_slice_to n (PList xs) = Inr (PList (take n xs))"
| "py_slice_to n (PDict kvs) = Inl unhashable_slice"
| "py_slice_to n v = Inl (not_subscriptable v)"

text \<open>
  \<open>xs[start:]\<close>: a negative start counts from the end and stops at the front; a start past
  the end gives the empty sequence.
\<close>

definition seq_from :: "int \<Rightarrow> 'a list \<Rightarrow> 'a list" where
  "seq_from start xs =
     (let n = int (length xs);
          k = (if start < 0 then max 0 (n + start) else min start n)
      in drop (nat k) xs)"

fun py_slice_from :: "int \<Rightarrow> pyval \<Rightarrow> exn + pyval" where
  "py_slice_from start (PStr s) = Inr (PStr (seq_from start s))"
| "py_slice_from start (PList xs) = Inr (PList (seq_from start xs))"
| "py_slice_from start (PDict kvs) = Inl unhashable_slice"
| "py_slice_from start v = Inl (not_subscriptable v)"

text \<open>Unary minus: integers, and booleans as the integers 0 and 1.\<close>

fun py_neg :: "pyval \<Rightarrow> exn + int" where
  "py_neg (PInt i) = Inr (- i)"
| "py_neg (PBool b) = Inr (if b then - 1 else 0)"
| "py_neg v = Inl (Exn ''TypeError'' (''bad operand type for unary -: '' @ py_quote (py_type_name v)))"

text \<open>\<open>v.lower()\<close>\<close>

fun py_lower_val :: "pyval \<Rightarrow> exn + string" where
  "py_lower_val (PStr s) = Inr (py_lower s)"
| "py_lower_val v = Inl (no_attribute v ''lower'')"

text \<open>\<open>v.get(key, default)\<close>\<close>

fun py_get :: "pyval \<Rightarrow> string \<Rightarrow> pyval \<Rightarrow> exn + pyval" where
  "py_get (PDict kvs) k d = Inr (case map_of kvs k of None \<Rightarrow> d | Some v \<Rightarrow> v)"
| "py_get v k d = Inl (no_attribute v ''get'')"

text \<open>\<open>v[key]\<close> with a string key.\<close>

fun py_item :: "pyval \<Rightarrow> string \<Rightarrow> exn + pyval" where
  "py_item (PDict kvs) k =
     (case map_of kvs k of None \<Rightarrow> Inl (Exn ''KeyError'' (py_quote k)) | Some v \<Rightarrow> Inr v)"
| "py_item (PStr s) k = Inl (Exn ''TypeError'' (''string indices must be integers, not '' @ py_quote ''str''))"
| "py_item (PList xs) k = Inl (Exn ''TypeError'' ''list indices must be integers or slices, not str'')"
| "py_item v k = Inl (not_subscriptable v)"

text \<open>Iteration: a list gives its elements, a string its characters, a dict its keys.\<close>

fun py_iter :: "pyval \<Rightarrow> exn + pyval list" where
  "py_iter (PList xs) = Inr xs"
| "py_iter (PStr s) = Inr (map (\<lambda>c. PStr [c]) s)"
| "py_iter (PDict kvs) = Inr (map (\<lambda>kv. PStr (fst kv)) kvs)"
| "py_iter v = Inl (Exn ''TypeError'' (py_quote (py_type_name v) @ '' object is not iterable''))"

text \<open>\<open>v.append(x)\<close>\<close>

fun py_append :: "pyval \<Rightarrow> pyval \<Rightarrow> exn + pyval" where
  "py_append (PList xs) x = Inr (PList (xs @ [x]))"
| "py_append v x = Inl (no_attribute v ''append'')"

text \<open>
  A value interpolated into an f-string: a string stands for itself, an integer is written
  in decimal; for the other values the interpreter's \<open>str()\<close> is a parameter.
\<close>

fun py_format :: "(pyval \<Rightarrow> string) \<Rightarrow> pyval \<Rightarrow> string" where
  "py_format r (PStr s) = s"
| "py_format r (PInt i) = py_str_int i"
| "py_format r v = r v"

section \<open>The world outside: services, clock and files\<close>

text \<open>
  The collaborators the handlers delegate to are parameters: what they return or raise on
  one call. \<open>ddgs_import\<close> is the import of the search library failing; \<open>ddgs_text\<close> is
  \<open>DDGS().text(query, max_results=num_results)\<close>; \<open>page_text\<close> is the chain from
  \<open>requests.get\<close> to \<open>soup.get_text\<close>; the three clock fields are \<open>datetime.now()\<close> as
  \<open>isoformat()\<close>, \<open>strftime("%Y-%m-%d %H:%M")\<close> and \<open>strftime('%Y%m%d_%H%M')\<close>;
  \<open>json_dumps\<close> is \<open>json.dumps(v, indent=2)\<close> and \<open>repr_of\<close> the interpreter's \<open>str()\<close>.
  The fault fields are the file operations failing: opening or parsing the log file,
  opening it for writing, writing it, and opening a report file for writing and writing
  it.
\<close>

record search_hit =
  hit_title :: string
  hit_href :: string
  hit_body :: string

record services =
  ddgs_import :: "exn option"
  ddgs_text :: "pyval \<Rightarrow> pyval \<Rightarrow> exn + search_hit list"
  page_text :: "pyval \<Rightarrow> exn + string"
  now_iso :: string
  now_minute :: string
  now_compact :: string
  json_dumps :: "pyval \<Rightarrow> string"
  repr_of :: "pyval \<Rightarrow> string"
  log_read_fault :: "exn option"
  log_open_fault :: "exn option"
  log_dump_fault :: "exn option"
  report_open_fault :: "string \<Rightarrow> exn option"
  report_write_fault :: "string \<Rightarrow> exn option"

text \<open>
  The file \<open>competitor_tracking.json\<close> is absent, holds a JSON value, or holds text that
  \<open>json.load\<close> rejects with the given message. \<open>json.load\<close> is taken to read back the
  value \<open>json.dump\<close> wrote. The report files are a map from file name to content.
\<close>

datatype stored = NoFile | JsonFile pyval | BadFile string

record files =
  tracking :: stored
  reports :: "string \<rightharpoonup> string"

text \<open>\<open>with open(log_file, 'r') as f: logs = json.load(f)\<close>\<close>

definition read_logs :: "services \<Rightarrow> files \<Rightarrow> exn + pyval" where
  "read_logs sv fs =
     (case log_read_fault sv of
        Some e \<Rightarrow> Inl e
      | None \<Rightarrow>
          (case tracking fs of
             JsonFile v \<Rightarrow> Inr v
           | BadFile m \<Rightarrow> Inl (Exn ''JSONDecodeError'' m)
           | NoFile \<Rightarrow> Inl (Exn ''FileNotFoundError'' ''competitor_tracking.json'')))"

text \<open>
  \<open>with open(log_file, 'w') as f: json.dump(logs, f, indent=2)\<close>. Opening truncates the
  file, so a failure while writing leaves text that is not JSON (here: the empty file,
  with the message \<open>json.load\<close> gives on it).
\<close>

definition write_logs :: "services \<Rightarrow> files \<Rightarrow> pyval \<Rightarrow> (exn + unit) \<times> files" where
  "write_logs sv fs logs =
     (case log_open_fault sv of
        Some e \<Rightarrow> (Inl e, fs)
      | None \<Rightarrow>
          (case log_dump_fault sv of
             Some e \<Rightarrow> (Inl e, fs\<lparr>tracking := BadFile ''Expecting value: line 1 column 1 (char 0)''\<rparr>)
           | None \<Rightarrow> (Inr (), fs\<lparr>tracking := JsonFile logs\<rparr>)))"

text \<open>
  The read-modify-write both \<open>track_competitor\<close> and \<open>handle_track_competitor\<close> perform:
  load the array if the file exists, else start from \<open>[]\<close>; append; rewrite the file.
\<close>

definition append_entry :: "services \<Rightarrow> files \<Rightarrow> pyval \<Rightarrow> (exn + unit) \<times> files" where
  "append_entry sv fs log_entry =
     (case (if tracking fs \<noteq> NoFile then read_logs sv fs else Inr (PList [])) of
        Inl e \<Rightarrow> (Inl e, fs)
      | Inr logs \<Rightarrow>
          (case py_append logs log_entry of
             Inl e \<Rightarrow> (Inl e, fs)
           | Inr logs' \<Rightarrow> write_logs sv fs logs'))"

definition make_entry :: "string \<Rightarrow> pyval \<Rightarrow> pyval \<Rightarrow> pyval \<Rightarrow> pyval" where
  "make_entry timestamp competitor activity source =
     PDict [(''timestamp'', PStr timestamp), (''competitor'', competitor),
            (''activity'', activity), (''source'', source)]"

text \<open>
  \<open>try: body except Exception as e: return handler(e)\<close>, for a body that may have changed
  the files before it raised.
\<close>

definition try_except :: "(exn + 'a) \<times> 's \<Rightarrow> (exn \<Rightarrow> 'a) \<Rightarrow> (exn + 'a) \<times> 's" where
  "try_except body handler =
     (case fst body of Inl e \<Rightarrow> (Inr (handler e), snd body) | Inr v \<Rightarrow> (Inr v, snd body))"

section \<open>The MCP server's handlers\<close>

datatype text_content = TextContent string

definition tick_server :: string where
  "tick_server = [CHR 0xC3, CHR 0xA2, CHR 0xC5, CHR 0x93, CHR 0xE2, CHR 0x80, CHR 0x9C]"

definition format_hit :: "nat \<times> search_hit \<Rightarrow> string" where
  "format_hit ir =
     py_str_nat (fst ir) @ ''. **'' @ hit_title (snd ir) @ ''**\<newline>''
     @ ''   URL: '' @ hit_href (snd ir) @ ''\<newline>''
     @ ''   '' @ take 300 (hit_body (snd ir)) @ ''...''"

definition web_search_body :: "services \<Rightarrow> arguments \<Rightarrow> exn + text_content list" where
  "web_search_body sv arguments =
     (case ddgs_import sv of
        Some e \<Rightarrow> Inl e
      | None \<Rightarrow>
          (let query = args_get arguments ''query'' (PStr []);
               num_results = args_get arguments ''num_results'' (PInt 5)
           in bind_res (ddgs_text sv query num_results) (\<lambda>results.
                if results = [] then Inr [TextContent ''No results found.'']
                else Inr [TextContent (py_join ''\<newline>\<newline>''
                       (map format_hit (zip [1 ..< Suc (length results)] results)))])))"

definition handle_web_search ::
    "services \<Rightarrow> files \<Rightarrow> arguments \<Rightarrow> (exn + text_content list) \<times> files" where
  "handle_web_search sv fs arguments =
     try_except (web_search_body sv arguments, fs)
       (\<lambda>e. [TextContent (''Search error: '' @ exn_text e)])"

text \<open>\<open>str.isspace\<close> on code points below 256, \<open>str.strip()\<close> and \<open>str.split('\n')\<close>.\<close>

definition py_isspace :: "char \<Rightarrow> bool" where
  "py_isspace c =
     (let n = (of_char c :: nat)
      in (9 \<le> n \<and> n \<le> 13) \<or> (28 \<le> n \<and> n \<le> 32) \<or> n = 133 \<or> n = 160)"

definition py_strip :: "string \<Rightarrow> string" where
  "py_strip s = rev (dropWhile py_isspace (rev (dropWhile py_isspace s)))"

fun py_split_lines :: "string \<Rightarrow> string list" where
  "py_split_lines [] = [[]]"
| "py_split_lines (c # cs) =
     (if c = CHR 0x0A then [] # py_split_lines cs
      else (case py_split_lines cs of [] \<Rightarrow> [[c]] | l # ls \<Rightarrow> (c # l) # ls))"

definition fetch_url_body :: "services \<Rightarrow> arguments \<Rightarrow> exn + text_content list" where
  "fetch_url_body sv arguments =
     (let url = args_get arguments ''url'' (PStr [])
      in bind_res (page_text sv url) (\<lambda>text.
           let lines = map py_strip (filter (\<lambda>l. py_strip l \<noteq> []) (py_split_lines text));
               content = py_join ''\<newline>'' (take 150 lines)
           in Inr [TextContent (''Content from '' @ py_format (repr_of sv) url
                     @ '':\<newline>\<newline>'' @ take 8000 content)]))"

definition handle_fetch_url ::
    "services \<Rightarrow> files \<Rightarrow> arguments \<Rightarrow> (exn + text_content list) \<times> files" where
  "handle_fetch_url sv fs arguments =
     try_except (fetch_url_body sv arguments, fs)
       (\<lambda>e. [TextContent (''Error: '' @ exn_text e)])"

definition track_competitor_body ::
    "services \<Rightarrow> files \<Rightarrow> arguments \<Rightarrow> (exn + text_content list) \<times> files" where
  "track_competitor_body sv fs arguments =
     (let competitor = args_get arguments ''competitor_name'' (PStr []);
          activity = args_get arguments ''activity'' (PStr []);
          source = args_get arguments ''source'' (PStr []);
          log_entry = make_entry (now_iso sv) competitor activity source
      in (case append_entry sv fs log_entry of
            (Inl e, fs') \<Rightarrow> (Inl e, fs')
          | (Inr u, fs') \<Rightarrow>
              (bind_res (py_slice_to 60 activity) (\<lambda>shown.
                 Inr [TextContent (tick_server @ '' Logged activity for ''
                        @ py_format (repr_of sv) competitor @ '': ''
                        @ py_format (repr_of sv) shown @ ''...'')]), fs')))"

definition handle_track_competitor ::
    "services \<Rightarrow> files \<Rightarrow> arguments \<Rightarrow> (exn + text_content list) \<times> files" where
  "handle_track_competitor sv fs arguments =
     try_except (track_competitor_body sv fs arguments)
       (\<lambda>e. [TextContent (''Error: '' @ exn_text e)])"

definition generate_report_body :: "services \<Rightarrow> arguments \<Rightarrow> exn + text_content list" where
  "generate_report_body sv arguments =
     (let topic = args_get arguments ''topic'' (PStr []);
          findings = args_get arguments ''findings'' (PStr []);
          format_type = args_get arguments ''format_type'' (PStr ''markdown'');
          timestamp = now_minute sv;
          report =
            (if format_type = PStr ''markdown'' then
               ''# Research Report: '' @ py_format (repr_of sv) topic @ ''\<newline>''
               @ ''\<newline>''
               @ ''**Generated:** '' @ timestamp @ ''  \<newline>''
               @ ''**Agent:** Research Assistant (Coral Protocol)\<newline>''
               @ ''\<newline>''
               @ ''---\<newline>''
               @ ''\<newline>''
               @ ''## Findings\<newline>''
               @ ''\<newline>''
               @ py_format (repr_of sv) findings @ ''\<newline>''
               @ ''\<newline>''
               @ ''---\<newline>''
               @ ''\<newline>''
               @ ''*Report generated by Coral Protocol Research Agent*\<newline>''
             else if format_type = PStr ''json'' then
               json_dumps sv (PDict [(''topic'', topic), (''timestamp'', PStr timestamp),
                                     (''findings'', findings)])
             else
               ''RESEARCH REPORT: '' @ py_format (repr_of sv) topic @ ''\<newline>''
               @ ''Generated: '' @ timestamp @ ''\<newline>\<newline>''
               @ py_format (repr_of sv) findings)
      in Inr [TextContent report])"

definition handle_generate_report ::
    "services \<Rightarrow> files \<Rightarrow> arguments \<Rightarrow> (exn + text_content list) \<times> files" where
  "handle_generate_report sv fs arguments =
     try_except (generate_report_body sv arguments, fs)
       (\<lambda>e. [TextContent (''Error: '' @ exn_text e)])"

text \<open>
  The condition of the list comprehension in \<open>handle_get_logs\<close>:
  \<open>competitor_filter.lower() in l.get("competitor", "").lower()\<close>.
\<close>

definition matches_filter :: "pyval \<Rightarrow> pyval \<Rightarrow> exn + bool" where
  "matches_filter competitor_filter l =
     bind_res (py_lower_val competitor_filter) (\<lambda>needle.
       bind_res (py_get l ''competitor'' (PStr [])) (\<lambda>c.
         bind_res (py_lower_val c) (\<lambda>hay. Inr (py_in_str needle hay))))"

fun filter_logs :: "pyval \<Rightarrow> pyval list \<Rightarrow> exn + pyval list" where
  "filter_logs competitor_filter [] = Inr []"
| "filter_logs competitor_filter (l # ls) =
     bind_res (matches_filter competitor_filter l) (\<lambda>keep.
       bind_res (filter_logs competitor_filter ls) (\<lambda>rest.
         Inr (if keep then l # rest else rest)))"

text \<open>
  One line of the listing:
  \<open>f"[{log['timestamp'][:10]}] {log['competitor']}: {log['activity'][:80]}..."\<close>.
\<close>

definition format_log :: "(pyval \<Rightarrow> string) \<Rightarrow> pyval \<Rightarrow> exn + string" where
  "format_log r log =
     bind_res (py_item log ''timestamp'') (\<lambda>ts.
       bind_res (py_slice_to 10 ts) (\<lambda>day.
         bind_res (py_item log ''competitor'') (\<lambda>competitor.
           bind_res (py_item log ''activity'') (\<lambda>activity.
             bind_res (py_slice_to 80 activity) (\<lambda>shown.
               Inr (''['' @ py_format r day @ ''] '' @ py_format r competitor @ '': ''
                    @ py_format r shown @ ''...''))))))"

definition get_logs_body :: "services \<Rightarrow> files \<Rightarrow> arguments \<Rightarrow> exn + text_content list" where
  "get_logs_body sv fs arguments =
     (let competitor_filter = args_get arguments ''competitor'' (PStr []);
          limit = args_get arguments ''limit'' (PInt 50)
      in if tracking fs = NoFile then Inr [TextContent ''No logs found.'']
         else
           bind_res (read_logs sv fs) (\<lambda>logs.
             bind_res (if py_truthy competitor_filter
                       then bind_res (py_iter logs) (\<lambda>items.
                              bind_res (filter_logs competitor_filter items) (\<lambda>kept.
                                Inr (PList kept)))
                       else Inr logs) (\<lambda>logs.
               bind_res (py_neg limit) (\<lambda>start.
                 bind_res (py_slice_from start logs) (\<lambda>logs.
                   if \<not> py_truthy logs then Inr [TextContent ''No matching logs found.'']
                   else
                     bind_res (py_iter logs) (\<lambda>items.
                       bind_res (map_res (format_log (repr_of sv)) items) (\<lambda>formatted.
                         Inr [TextContent (py_join ''\<newline>'' formatted)])))))))"

definition handle_get_logs ::
    "services \<Rightarrow> files \<Rightarrow> arguments \<Rightarrow> (exn + text_content list) \<times> files" where
  "handle_get_logs sv fs arguments =
     try_except (get_logs_body sv fs arguments, fs)
       (\<lambda>e. [TextContent (''Error: '' @ exn_text e)])"

text \<open>
  \<open>call_tool\<close> as the source writes it: the dispatch on the tool's name. The server
  reaches it through the wrapper of \<open>@app.call_tool()\<close>, which validates the arguments
  against the tool's schema first (\<open>invoke\<close> below).
\<close>

definition call_tool ::
    "services \<Rightarrow> files \<Rightarrow> string \<Rightarrow> arguments \<Rightarrow> (exn + text_content list) \<times> files" where
  "call_tool sv fs name arguments =
     (if name = ''web_search'' then handle_web_search sv fs arguments
      else if name = ''fetch_url'' then handle_fetch_url sv fs arguments
      else if name = ''track_competitor'' then handle_track_competitor sv fs arguments
      else if name = ''generate_report'' then handle_generate_report sv fs arguments
      else if name = ''get_competitor_logs'' then handle_get_logs sv fs arguments
      else (Inr [TextContent (''Unknown tool: '' @ name)], fs))"

section \<open>The agent's own tools\<close>

text \<open>
  The tools of \<open>research_agent.py\<close> are functions with typed parameters (\<open>str\<close>, \<open>int\<close>);
  the agent framework fills in the declared defaults before it calls them.
\<close>

definition tick_agent :: string where
  "tick_agent = [CHR 0xE2, CHR 0x80, CHR 0x9A, CHR 0xC3, CHR 0xBA, CHR 0xC3, CHR 0xAC]"

definition track_competitor ::
    "services \<Rightarrow> files \<Rightarrow> string \<Rightarrow> string \<Rightarrow> string \<Rightarrow> (exn + string) \<times> files" where
  "track_competitor sv fs competitor_name activity source =
     (let log_entry = make_entry (now_iso sv) (PStr competitor_name) (PStr activity) (PStr source)
      in try_except
           (case append_entry sv fs log_entry of
              (Inl e, fs') \<Rightarrow> (Inl e, fs')
            | (Inr u, fs') \<Rightarrow>
                (Inr (tick_agent @ '' Logged activity for '' @ competitor_name @ '': ''
                      @ take 50 activity @ ''...''), fs'))
           (\<lambda>e. ''Error logging activity: '' @ exn_text e))"

text \<open>The file name \<open>generate_report\<close> builds from the topic, the clock and the format.\<close>

definition report_filename :: "string \<Rightarrow> string \<Rightarrow> string \<Rightarrow> string" where
  "report_filename topic stamp format_type =
     ''report_'' @ py_lower (py_replace_space ''_'' topic) @ ''_'' @ stamp @ ''.''
     @ (if format_type \<noteq> ''markdown'' then format_type else ''md'')"

definition render_report :: "services \<Rightarrow> string \<Rightarrow> string \<Rightarrow> string \<Rightarrow> string" where
  "render_report sv topic findings format_type =
     (let timestamp = now_minute sv
      in if format_type = ''markdown'' then
           ''# Research Report: '' @ topic @ ''\<newline>''
           @ ''\<newline>''
           @ ''**Generated:** '' @ timestamp @ ''  \<newline>''
           @ ''**Agent:** Research Assistant (Coral Protocol)\<newline>''
           @ ''\<newline>''
           @ ''---\<newline>''
           @ ''\<newline>''
           @ ''## Summary\<newline>''
           @ ''\<newline>''
           @ take 500 findings @ ''\<newline>''
           @ ''\<newline>''
           @ ''## Detailed Findings\<newline>''
           @ ''\<newline>''
           @ findings @ ''\<newline>''
           @ ''\<newline>''
           @ ''---\<newline>''
           @ ''\<newline>''
           @ ''*Report generated by Coral Protocol Research Agent*\<newline>''
         else if format_type = ''json'' then
           json_dumps sv (PDict [(''topic'', PStr topic), (''timestamp'', PStr timestamp),
                                 (''summary'', PStr (take 500 findings)),
                                 (''findings'', PStr findings)])
         else
           ''RESEARCH REPORT: '' @ topic @ ''\<newline>''
           @ ''Generated: '' @ timestamp @ ''\<newline>''
           @ ''\<newline>''
           @ findings @ ''\<newline>'')"

text \<open>
  \<open>generate_report\<close>: the report and the file name are computed before the \<open>try\<close>; only
  opening and writing the file is inside it. Opening creates or truncates the file, so a
  write that fails after it leaves the file empty.
\<close>

definition generate_report ::
    "services \<Rightarrow> files \<Rightarrow> string \<Rightarrow> string \<Rightarrow> string \<Rightarrow> (exn + string) \<times> files" where
  "generate_report sv fs topic findings format_type =
     (let report = render_report sv topic findings format_type;
          filename = report_filename topic (now_compact sv) format_type
      in try_except
           (case report_open_fault sv filename of
              Some e \<Rightarrow> (Inl e, fs)
            | None \<Rightarrow>
                (case report_write_fault sv filename of
                   Some e \<Rightarrow> (Inl e, fs\<lparr>reports := (reports fs)(filename \<mapsto> [])\<rparr>)
                 | None \<Rightarrow>
                     (Inr (''Report saved to '' @ filename @ ''\<newline>\<newline>''
                           @ take 1000 report @ ''...''),
                      fs\<lparr>reports := (reports fs)(filename \<mapsto> report)\<rparr>)))
           (\<lambda>e. ''Error saving report: '' @ exn_text e @ ''\<newline>\<newline>'' @ take 1000 report @ ''...''))"

text \<open>
  \<open>summarize_paper\<close> of \<open>research_agent.py\<close>: one f-string over \<open>max_length\<close> and
  \<open>paper_text[:200]\<close>.
\<close>

definition summarize_paper :: "string \<Rightarrow> int \<Rightarrow> string" where
  "summarize_paper paper_text max_length =
     ''Paper Summary (max '' @ py_str_int max_length @ '' words):\<newline>''
     @ ''\<newline>''
     @ ''Key Points:\<newline>''
     @ ''- '' @ take 200 paper_text @ ''...\<newline>''
     @ ''\<newline>''
     @ ''[Full summarization would be performed by the LLM using this tool]\<newline>''"

section \<open>Connecting to the Coral server\<close>

text \<open>
  A tool object, as far as the tool list is concerned: its name and its description. For the
  five native tools the description is the function's docstring, without its indentation
  and the blank lines around it.
\<close>

record tool =
  tool_name :: string
  tool_description :: string

definition native_tools :: "tool list" where
  "native_tools =
     [\<lparr>tool_name = ''web_search'',
        tool_description =
          ''Search the web for information on a given topic.\<newline>''
          @ ''\<newline>''
          @ ''Args:\<newline>''
          @ ''    query: The search query string\<newline>''
          @ ''    num_results: Number of results to return (default 5)\<newline>''
          @ ''\<newline>''
          @ ''Returns:\<newline>''
          @ ''    A summary of search results''\<rparr>,
      \<lparr>tool_name = ''fetch_url'',
        tool_description =
          ''Fetch and extract content from a URL.\<newline>''
          @ ''\<newline>''
          @ ''Args:\<newline>''
          @ ''    url: The URL to fetch\<newline>''
          @ ''\<newline>''
          @ ''Returns:\<newline>''
          @ ''    Extracted text content from the page''\<rparr>,
      \<lparr>tool_name = ''track_competitor'',
        tool_description =
          ''Track a competitor activity and log it to the database.\<newline>''
          @ ''\<newline>''
          @ ''Args:\<newline>''
          @ ''    competitor_name: Name of the competitor (e.g., '' @ [CHR 0x22] @ ''Google A2A''
          @ [CHR 0x22] @ '', '' @ [CHR 0x22] @ ''AGNTCY'' @ [CHR 0x22] @ '', '' @ [CHR 0x22]
          @ ''ANP'' @ [CHR 0x22] @ '')\<newline>''
          @ ''    activity: Description of the activity/news\<newline>''
          @ ''    source: URL or source of the information\<newline>''
          @ ''\<newline>''
          @ ''Returns:\<newline>''
          @ ''    Confirmation that the activity was logged''\<rparr>,
      \<lparr>tool_name = ''generate_report'',
        tool_description =
          ''Generate a structured research report.\<newline>''
          @ ''\<newline>''
          @ ''Args:\<newline>''
          @ ''    topic: The research topic\<newline>''
          @ ''    findings: The research findings/content\<newline>''
          @ ''    format_type: Output format (markdown, json, or text)\<newline>''
          @ ''\<newline>''
          @ ''Returns:\<newline>''
          @ ''    Formatted report''\<rparr>,
      \<lparr>tool_name = ''summarize_paper'',
        tool_description =
          ''Summarize a technical paper or long document.\<newline>''
          @ ''\<newline>''
          @ ''Args:\<newline>''
          @ ''    paper_text: The full text of the paper\<newline>''
          @ ''    max_length: Maximum length of summary in words\<newline>''
          @ ''\<newline>''
          @ ''Returns:\<newline>''
          @ ''    A structured summary''\<rparr>]"

text \<open>
  What the server does to one connection attempt: constructing the client raises, the
  client is constructed and \<open>get_tools()\<close> raises, or \<open>get_tools()\<close> returns the tools.
\<close>

datatype handshake = ClientFails exn | ToolsFail exn | ToolsLoaded "tool list"

text \<open>
  What the connection code does that can be observed, in order: the attempts (numbered
  from 0), the waits in seconds, and the lines it prints (without their glyphs):
  \<open>Connecting\<close> "Connecting to Coral Server at ...", \<open>Connected n\<close> "Connected to Coral Server
  with n Coral tools", \<open>AttemptFailed k m e\<close> "Connection attempt k/m failed: e",
  \<open>GaveUp\<close> "Could not connect to Coral Server. Running with native tools only.",
  \<open>Standalone\<close> "No CORAL_SSE_URL set. Running in standalone mode."
\<close>

datatype event =
    Connecting string
  | Attempt nat
  | Connected nat
  | AttemptFailed nat nat exn
  | Sleep nat
  | GaveUp
  | Standalone

record agent_state =
  all_tools :: "tool list"
  coral_client :: "nat option"
  trace :: "event list"

definition max_retries :: nat where
  "max_retries = 5"

definition retry_delay :: nat where
  "retry_delay = 5"

text \<open>The \<open>except\<close> branch of one attempt.\<close>

definition attempt_failed :: "nat \<Rightarrow> exn \<Rightarrow> agent_state \<Rightarrow> agent_state" where
  "attempt_failed attempt e st =
     st\<lparr>trace := trace st @ [Attempt attempt, AttemptFailed (attempt + 1) max_retries e]
            @ (if attempt < max_retries - 1 then [Sleep retry_delay] else [GaveUp])\<rparr>"

text \<open>
  \<open>for attempt in range(max_retries)\<close>, from the given attempt on. The client is assigned
  before \<open>get_tools()\<close> is called, so it stays assigned when that call raises.
\<close>

function connect_loop :: "(nat \<Rightarrow> handshake) \<Rightarrow> nat \<Rightarrow> agent_state \<Rightarrow> agent_state" where
  "connect_loop server attempt st =
     (if attempt < max_retries then
        (case server attempt of
           ToolsLoaded coral_tools \<Rightarrow>
             st\<lparr>all_tools := all_tools st @ coral_tools,
                coral_client := Some attempt,
                trace := trace st @ [Attempt attempt, Connected (length coral_tools)]\<rparr>
         | ToolsFail e \<Rightarrow>
             connect_loop server (Suc attempt) (attempt_failed attempt e (st\<lparr>coral_client := Some attempt\<rparr>))
         | ClientFails e \<Rightarrow>
             connect_loop server (Suc attempt) (attempt_failed attempt e st))
      else st)"
  by pat_completeness auto
termination
  by (relation "measure (\<lambda>(server, attempt, st). max_retries - attempt)") auto

declare connect_loop.simps [simp del]

text \<open>The environment variables \<open>create_coralized_agent\<close> reads.\<close>

record environ =
  CORAL_SSE_URL :: "string option"
  CORAL_AGENT_ID :: "string option"
  CORAL_AGENT_DESCRIPTION :: "string option"

definition getenv_default :: "string option \<Rightarrow> string \<Rightarrow> string" where
  "getenv_default v d = (case v of None \<Rightarrow> d | Some s \<Rightarrow> s)"

text \<open>
  The URL the agent connects to: \<open>CORAL_SSE_URL\<close> with the agent's identity appended as
  query parameters when the variable is set and not empty.
\<close>

definition build_coral_url :: "environ \<Rightarrow> string option" where
  "build_coral_url env =
     (let agent_id = getenv_default (CORAL_AGENT_ID env) ''research_assistant'';
          agent_description =
            getenv_default (CORAL_AGENT_DESCRIPTION env) ''Research assistant agent''
      in (case CORAL_SSE_URL env of
            None \<Rightarrow> None
          | Some u \<Rightarrow>
              if u \<noteq> [] then
                Some (u @ (if CHR ''?'' \<in> set u then ''&'' else ''?'')
                      @ ''agentId='' @ agent_id @ ''&agentDescription=''
                      @ py_replace_space ''%20'' agent_description)
              else Some u))"

text \<open>
  \<open>create_coralized_agent\<close> up to the point where the tool list is final: the URL, the
  native tools, and the connection loop when the URL is set and not empty. The language
  model, the prompt and the executor are then built from \<open>all_tools\<close> by library calls.
\<close>

definition create_coralized_agent :: "environ \<Rightarrow> (nat \<Rightarrow> handshake) \<Rightarrow> agent_state" where
  "create_coralized_agent env server =
     (let coral_url = build_coral_url env;
          st = \<lparr>all_tools = native_tools, coral_client = None, trace = []\<rparr>
      in (case coral_url of
            None \<Rightarrow> st\<lparr>trace := [Standalone]\<rparr>
          | Some u \<Rightarrow>
              if u \<noteq> [] then connect_loop server 0 (st\<lparr>trace := [Connecting (take 50 u)]\<rparr>)
              else st\<lparr>trace := [Standalone]\<rparr>))"

section \<open>Log entries and sequences of logging calls\<close>

text \<open>
  The record both logging paths build: four string fields. \<open>entry_val\<close> is the dict as it
  is stored, \<open>listing_line\<close> the line \<open>handle_get_logs\<close> prints for it, and
  \<open>entry_matches\<close> the filter condition on it.
\<close>

record log_entry =
  le_timestamp :: string
  le_competitor :: string
  le_activity :: string
  le_source :: string

definition entry_val :: "log_entry \<Rightarrow> pyval" where
  "entry_val en =
     make_entry (le_timestamp en) (PStr (le_competitor en)) (PStr (le_activity en))
       (PStr (le_source en))"

definition listing_line :: "log_entry \<Rightarrow> string" where
  "listing_line en =
     ''['' @ take 10 (le_timestamp en) @ ''] '' @ le_competitor en @ '': ''
     @ take 80 (le_activity en) @ ''...''"

definition entry_matches :: "string \<Rightarrow> log_entry \<Rightarrow> bool" where
  "entry_matches f en = py_in_str (py_lower f) (py_lower (le_competitor en))"

text \<open>
  One logging call: through the server's \<open>track_competitor\<close> tool or through the agent's
  function, with the services (the clock among them) as they are during that call.
\<close>

record log_call =
  via_server :: bool
  call_services :: services
  call_competitor :: string
  call_activity :: string
  call_source :: string

definition do_log :: "files \<Rightarrow> log_call \<Rightarrow> files" where
  "do_log fs c =
     (if via_server c then
        snd (call_tool (call_services c) fs ''track_competitor''
               [''competitor_name'' \<mapsto> PStr (call_competitor c),
                ''activity'' \<mapsto> PStr (call_activity c),
                ''source'' \<mapsto> PStr (call_source c)])
      else
        snd (track_competitor (call_services c) fs (call_competitor c) (call_activity c)
               (call_source c)))"

definition logged_entry :: "log_call \<Rightarrow> log_entry" where
  "logged_entry c =
     \<lparr>le_timestamp = now_iso (call_services c), le_competitor = call_competitor c,
      le_activity = call_activity c, le_source = call_source c\<rparr>"

definition fault_free :: "services \<Rightarrow> bool" where
  "fault_free sv =
     (log_read_fault sv = None \<and> log_open_fault sv = None \<and> log_dump_fault sv = None)"

section \<open>The tool catalogue and invocation through it\<close>

text \<open>
  \<open>list_tools\<close> of \<open>research_mcp_server.py\<close>: for every tool its name, its description
  and its \<open>inputSchema\<close>, that is the properties (name, type, description, the allowed
  values where the schema has an \<open>enum\<close>, the default where it has one) and the list of
  required parameters.
\<close>

record param_schema =
  param_name :: string
  param_type :: string
  param_description :: string
  param_enum :: "string list"
  param_default :: "pyval option"

record tool_schema =
  schema_name :: string
  schema_description :: string
  schema_properties :: "param_schema list"
  schema_required :: "string list"

definition list_tools :: "tool_schema list" where
  "list_tools =
     [\<lparr>schema_name = ''web_search'',
        schema_description = ''Search the web for information on any topic'',
        schema_properties =
          [\<lparr>param_name = ''query'', param_type = ''string'',
             param_description = ''Search query'', param_enum = [], param_default = None\<rparr>,
           \<lparr>param_name = ''num_results'', param_type = ''integer'',
             param_description = ''Number of results (default: 5)'', param_enum = [],
             param_default = Some (PInt 5)\<rparr>],
        schema_required = [''query'']\<rparr>,
      \<lparr>schema_name = ''fetch_url'',
        schema_description = ''Fetch and extract content from a URL'',
        schema_properties =
          [\<lparr>param_name = ''url'', param_type = ''string'',
             param_description = ''URL to fetch'', param_enum = [], param_default = None\<rparr>],
        schema_required = [''url'']\<rparr>,
      \<lparr>schema_name = ''track_competitor'',
        schema_description = ''Log a competitor activity for tracking'',
        schema_properties =
          [\<lparr>param_name = ''competitor_name'', param_type = ''string'',
             param_description = ''Competitor name (e.g., Google A2A, AGNTCY)'',
             param_enum = [], param_default = None\<rparr>,
           \<lparr>param_name = ''activity'', param_type = ''string'',
             param_description = ''Description of activity'', param_enum = [],
             param_default = None\<rparr>,
           \<lparr>param_name = ''source'', param_type = ''string'',
             param_description = ''Source URL'', param_enum = [],
             param_default = Some (PStr [])\<rparr>],
        schema_required = [''competitor_name'', ''activity'']\<rparr>,
      \<lparr>schema_name = ''generate_report'',
        schema_description = ''Generate a structured research report'',
        schema_properties =
          [\<lparr>param_name = ''topic'', param_type = ''string'',
             param_description = ''Research topic'', param_enum = [], param_default = None\<rparr>,
           \<lparr>param_name = ''findings'', param_type = ''string'',
             param_description = ''Research findings'', param_enum = [],
             param_default = None\<rparr>,
           \<lparr>param_name = ''format_type'', param_type = ''string'',
             param_description = [], param_enum = [''markdown'', ''json'', ''text''],
             param_default = Some (PStr ''markdown'')\<rparr>],
        schema_required = [''topic'', ''findings'']\<rparr>,
      \<lparr>schema_name = ''get_competitor_logs'',
        schema_description = ''Get logged competitor activities'',
        schema_properties =
          [\<lparr>param_name = ''competitor'', param_type = ''string'',
             param_description = ''Filter by competitor name (optional)'', param_enum = [],
             param_default = Some (PStr [])\<rparr>,
           \<lparr>param_name = ''limit'', param_type = ''integer'',
             param_description = ''Max entries to return'', param_enum = [],
             param_default = Some (PInt 50)\<rparr>],
        schema_required = []\<rparr>]"

text \<open>
  Modelled from the spec: the invocation path around \<open>call_tool\<close> (section 4.1,
  \<open>invoke\<close>, and section 7, \<open>ValidationError\<close>). In the repository it is the wrapper that the
  decorator \<open>@app.call_tool()\<close> of the MCP SDK puts around \<open>call_tool\<close>; the SDK is not among
  the sources. A name that is not registered is reported; the arguments are validated
  against the tool's schema, a missing required parameter being a validation error
  reported as a failure result, before the handler is entered; the remaining checks and
  the coercion of types, which the spec leaves open, are the parameter \<open>coerce\<close>; then
  \<open>call_tool\<close> runs, and a handler failure would be a failure result too. The text of the
  validation failure is the one the SDK gives.
\<close>

record tool_result =
  success :: bool
  result_text :: string

fun text_of :: "text_content \<Rightarrow> string" where
  "text_of (TextContent t) = t"

definition validation_failure :: "string \<Rightarrow> tool_result" where
  "validation_failure k =
     \<lparr>success = False,
      result_text = ''Input validation error: '' @ py_quote k @ '' is a required property''\<rparr>"

definition invoke ::
    "(tool_schema \<Rightarrow> arguments \<Rightarrow> string + arguments) \<Rightarrow> services \<Rightarrow> files \<Rightarrow> string \<Rightarrow> arguments
       \<Rightarrow> tool_result \<times> files" where
  "invoke coerce sv fs name arguments =
     (case find (\<lambda>t. schema_name t = name) list_tools of
        None \<Rightarrow> (\<lparr>success = False, result_text = ''Unknown tool: '' @ name\<rparr>, fs)
      | Some t \<Rightarrow>
          (case filter (\<lambda>k. arguments k = None) (schema_required t) of
             k # ks \<Rightarrow> (validation_failure k, fs)
           | [] \<Rightarrow>
               (case coerce t arguments of
                  Inl m \<Rightarrow>
                    (\<lparr>success = False, result_text = ''Input validation error: '' @ m\<rparr>, fs)
                | Inr arguments' \<Rightarrow>
                    (case call_tool sv fs name arguments' of
                       (Inl e, fs') \<Rightarrow> (\<lparr>success = False, result_text = exn_text e\<rparr>, fs')
                     | (Inr items, fs') \<Rightarrow>
                         (\<lparr>success = True,
                           result_text = py_join ''\<newline>'' (map text_of items)\<rparr>, fs')))))"

section \<open>Concrete worlds\<close>

text \<open>
  Services in which nothing fails, at a fixed time, and files with nothing stored; used
  where a statement is evaluated on a concrete input.
\<close>

definition calm_services :: services where
  "calm_services =
     \<lparr>ddgs_import = None,
      ddgs_text = (\<lambda>query num_results. Inr []),
      page_text = (\<lambda>url. Inr []),
      now_iso = ''2026-11-03T10:15:30.000123'',
      now_minute = ''2026-11-03 10:15'',
      now_compact = ''20261103_1015'',
      json_dumps = (\<lambda>v. ''{}''),
      repr_of = (\<lambda>v. ''?''),
      log_read_fault = None,
      log_open_fault = None,
      log_dump_fault = None,
      report_open_fault = (\<lambda>filename. None),
      report_write_fault = (\<lambda>filename. None)\<rparr>"

definition no_files :: files where
  "no_files = \<lparr>tracking = NoFile, reports = Map.empty\<rparr>"

definition coral_env :: environ where
  "coral_env =
     \<lparr>CORAL_SSE_URL = Some ''http://localhost:5555/sse'',
      CORAL_AGENT_ID = None,
      CORAL_AGENT_DESCRIPTION = None\<rparr>"

text \<open>
  Two servers: one refuses the first attempt and then offers a tool named like a native
  one; the other never completes a handshake.
\<close>

definition fails_then_collides :: "nat \<Rightarrow> handshake" where
  "fails_then_collides attempt =
     (if attempt = 0 then ClientFails (Exn ''ConnectionError'' ''refused'')
      else ToolsLoaded [\<lparr>tool_name = ''web_search'', tool_description = ''Remote search''\<rparr>])"

definition always_refuses :: "nat \<Rightarrow> handshake" where
  "always_refuses attempt =
     (if attempt = 3 then ToolsFail (Exn ''TimeoutError'' ''timed out'')
      else ClientFails (Exn ''ConnectionError'' ''refused''))"

text \<open>Two stored entries, the log file holding them, and one logging call.\<close>

definition two_entries :: "log_entry list" where
  "two_entries =
     [\<lparr>le_timestamp = ''2026-11-01T09:00:00'', le_competitor = ''Acme Corp'',
       le_activity = ''Launched agent SDK'', le_source = ''https://acme.example/blog''\<rparr>,
      \<lparr>le_timestamp = ''2026-11-02T17:30:00.250000'', le_competitor = ''Globex'',
       le_activity = ''Raised prices'', le_source = []\<rparr>]"

definition two_logged :: files where
  "two_logged = \<lparr>tracking = JsonFile (PList (map entry_val two_entries)), reports = Map.empty\<rparr>"

definition acme_call :: "bool \<Rightarrow> string \<Rightarrow> log_call" where
  "acme_call server_side src =
     \<lparr>via_server = server_side, call_services = calm_services, call_competitor = ''Acme Corp'',
      call_activity = ''Launched agent SDK'', call_source = src\<rparr>"

section \<open>Properties\<close>

subsection \<open>The summary tool\<close>

lemma digit_char_not_newline: "d < 10 \<Longrightarrow> digit_char d \<noteq> CHR 0x0A"
proof -
  assume "d < 10"
  then have "d \<in> {0, 1, 2, 3, 4, 5, 6, 7, 8, 9}" by auto
  then show ?thesis by (auto simp: digit_char_def)
qed

lemma py_str_nat_no_newline: "CHR 0x0A \<notin> set (py_str_nat n)"
proof (induction n rule: py_str_nat.induct)
  case (1 n)
  show ?case
  proof (cases "n < 10")
    case True
    then show ?thesis
      using digit_char_not_newline [of n] by (simp add: py_str_nat.simps [of n])
  next
    case False
    have "n mod 10 < 10" by simp
    then have "digit_char (n mod 10) \<noteq> CHR 0x0A" by (rule digit_char_not_newline)
    with False "1.IH" show ?thesis
      by (simp add: py_str_nat.simps [of n])
  qed
qed

lemma py_str_int_no_newline: "CHR 0x0A \<notin> set (py_str_int i)"
  by (simp add: py_str_int_def py_str_nat_no_newline)

lemma takeWhile_line: "CHR 0x0A \<notin> set h \<Longrightarrow> takeWhile (\<lambda>c. c \<noteq> CHR 0x0A) (h @ CHR 0x0A # r) = h"
  by (induction h) auto

lemma dropWhile_line: "CHR 0x0A \<notin> set h \<Longrightarrow> dropWhile (\<lambda>c. c \<noteq> CHR 0x0A) (h @ CHR 0x0A # r) = CHR 0x0A # r"
  by (induction h) auto

lemma summarize_paper_split:
  "summarize_paper paper_text max_length =
     (''Paper Summary (max '' @ py_str_int max_length @ '' words):'') @ CHR 0x0A #
     (''\<newline>Key Points:\<newline>- '' @ take 200 paper_text
        @ ''...\<newline>\<newline>[Full summarization would be performed by the LLM using this tool]\<newline>'')"
  by (simp add: summarize_paper_def)

lemma summarize_header_no_newline:
  "CHR 0x0A \<notin> set (''Paper Summary (max '' @ py_str_int max_length @ '' words):'')"
  by (simp add: py_str_int_no_newline)

text \<open>
  C10. The first line of the summary is the header, the only place where \<open>max_length\<close>
  appears. Everything after it is a fixed frame around exactly the first 200 characters of
  the input, whatever \<open>max_length\<close> is: two calls on the same text with different
  \<open>max_length\<close> agree after the header line.
\<close>

theorem summarize_paper_content:
  "first_line (summarize_paper paper_text max_length)
     = ''Paper Summary (max '' @ py_str_int max_length @ '' words):''
   \<and> after_first_line (summarize_paper paper_text max_length)
     = ''\<newline>Key Points:\<newline>- '' @ take 200 paper_text
       @ ''...\<newline>\<newline>[Full summarization would be performed by the LLM using this tool]\<newline>''
   \<and> after_first_line (summarize_paper paper_text max_length)
     = after_first_line (summarize_paper paper_text other_length)"
proof -
  have a: "\<And>m. first_line (summarize_paper paper_text m)
     = ''Paper Summary (max '' @ py_str_int m @ '' words):''"
    unfolding first_line_def summarize_paper_split
    by (rule takeWhile_line [OF summarize_header_no_newline])
  have b: "\<And>m. after_first_line (summarize_paper paper_text m)
     = ''\<newline>Key Points:\<newline>- '' @ take 200 paper_text
       @ ''...\<newline>\<newline>[Full summarization would be performed by the LLM using this tool]\<newline>''"
    unfolding after_first_line_def summarize_paper_split
    by (simp only: dropWhile_line [OF summarize_header_no_newline] drop_Suc_Cons drop_0 One_nat_def)
  show ?thesis
    using a [of max_length] b [of max_length] b [of other_length] by simp
qed

subsection \<open>Failures stay inside the handlers\<close>

lemma try_except_returns: "\<exists>v. fst (try_except body handler) = Inr v"
  by (cases "fst body") (simp_all add: try_except_def)

lemma web_search_body_text: "web_search_body sv a = Inr r \<Longrightarrow> \<exists>t. r = [TextContent t]"
  by (auto simp: web_search_body_def bind_res_def Let_def split: option.splits sum.splits if_splits)

lemma fetch_url_body_text: "fetch_url_body sv a = Inr r \<Longrightarrow> \<exists>t. r = [TextContent t]"
  by (auto simp: fetch_url_body_def bind_res_def Let_def split: sum.splits)

lemma track_competitor_body_text:
  "fst (track_competitor_body sv fs a) = Inr r \<Longrightarrow> \<exists>t. r = [TextContent t]"
  by (auto simp: track_competitor_body_def bind_res_def Let_def split: sum.splits prod.splits)

lemma generate_report_body_text: "generate_report_body sv a = Inr r \<Longrightarrow> \<exists>t. r = [TextContent t]"
  by (auto simp: generate_report_body_def Let_def)

lemma get_logs_body_text: "get_logs_body sv fs a = Inr r \<Longrightarrow> \<exists>t. r = [TextContent t]"
  by (auto simp: get_logs_body_def bind_res_def Let_def split: sum.splits if_splits)

lemma handler_text:
  assumes "\<And>r. fst body = Inr r \<Longrightarrow> \<exists>t. r = [TextContent t]"
  shows "\<exists>t. fst (try_except body (\<lambda>e. [TextContent (p @ exn_text e)])) = Inr [TextContent t]"
proof (cases "fst body")
  case (Inl e)
  then show ?thesis by (simp add: try_except_def)
next
  case (Inr r)
  with assms obtain t where "r = [TextContent t]" by blast
  with Inr show ?thesis by (simp add: try_except_def)
qed

text \<open>
  C1. Whatever the services do, whatever the files hold, for every tool name (registered
  or not) and every argument mapping, \<open>call_tool\<close> returns: its result is one text item,
  never a raised exception. For each of the five registered tools that text is the output
  of the handler's body when the body returns, and the handler's prefix followed by the
  exception's text when the body raises. The same containment holds for the agent's
  \<open>generate_report\<close>, whose report is built outside the \<open>try\<close> from its string
  parameters: it returns a text also when the file cannot be written.
\<close>

theorem call_tool_returns_text:
  "(\<exists>t. fst (call_tool sv fs name arguments) = Inr [TextContent t])
   \<and> fst (call_tool sv fs ''web_search'' arguments)
       = (case web_search_body sv arguments of
            Inl e \<Rightarrow> Inr [TextContent (''Search error: '' @ exn_text e)] | Inr r \<Rightarrow> Inr r)
   \<and> fst (call_tool sv fs ''fetch_url'' arguments)
       = (case fetch_url_body sv arguments of
            Inl e \<Rightarrow> Inr [TextContent (''Error: '' @ exn_text e)] | Inr r \<Rightarrow> Inr r)
   \<and> fst (call_tool sv fs ''track_competitor'' arguments)
       = (case fst (track_competitor_body sv fs arguments) of
            Inl e \<Rightarrow> Inr [TextContent (''Error: '' @ exn_text e)] | Inr r \<Rightarrow> Inr r)
   \<and> fst (call_tool sv fs ''generate_report'' arguments)
       = (case generate_report_body sv arguments of
            Inl e \<Rightarrow> Inr [TextContent (''Error: '' @ exn_text e)] | Inr r \<Rightarrow> Inr r)
   \<and> fst (call_tool sv fs ''get_competitor_logs'' arguments)
       = (case get_logs_body sv fs arguments of
            Inl e \<Rightarrow> Inr [TextContent (''Error: '' @ exn_text e)] | Inr r \<Rightarrow> Inr r)
   \<and> (\<exists>t. fst (generate_report sv fs topic findings format_type) = Inr t)"
proof -
  have ws: "\<exists>t. fst (handle_web_search sv fs arguments) = Inr [TextContent t]"
    unfolding handle_web_search_def by (rule handler_text) (simp add: web_search_body_text)
  have fu: "\<exists>t. fst (handle_fetch_url sv fs arguments) = Inr [TextContent t]"
    unfolding handle_fetch_url_def by (rule handler_text) (simp add: fetch_url_body_text)
  have tc: "\<exists>t. fst (handle_track_competitor sv fs arguments) = Inr [TextContent t]"
    unfolding handle_track_competitor_def
    by (rule handler_text) (simp add: track_competitor_body_text)
  have gr: "\<exists>t. fst (handle_generate_report sv fs arguments) = Inr [TextContent t]"
    unfolding handle_generate_report_def
    by (rule handler_text) (simp add: generate_report_body_text)
  have gl: "\<exists>t. fst (handle_get_logs sv fs arguments) = Inr [TextContent t]"
    unfolding handle_get_logs_def by (rule handler_text) (simp add: get_logs_body_text)
  have every: "\<exists>t. fst (call_tool sv fs name arguments) = Inr [TextContent t]"
    using ws fu tc gr gl by (simp add: call_tool_def)
  have c1: "fst (call_tool sv fs ''web_search'' arguments)
       = (case web_search_body sv arguments of
            Inl e \<Rightarrow> Inr [TextContent (''Search error: '' @ exn_text e)] | Inr r \<Rightarrow> Inr r)"
    by (simp add: call_tool_def handle_web_search_def try_except_def split: sum.splits)
  have c2: "fst (call_tool sv fs ''fetch_url'' arguments)
       = (case fetch_url_body sv arguments of
            Inl e \<Rightarrow> Inr [TextContent (''Error: '' @ exn_text e)] | Inr r \<Rightarrow> Inr r)"
    by (simp add: call_tool_def handle_fetch_url_def try_except_def split: sum.splits)
  have c3: "fst (call_tool sv fs ''track_competitor'' arguments)
       = (case fst (track_competitor_body sv fs arguments) of
            Inl e \<Rightarrow> Inr [TextContent (''Error: '' @ exn_text e)] | Inr r \<Rightarrow> Inr r)"
    by (simp add: call_tool_def handle_track_competitor_def try_except_def split: sum.splits)
  have c4: "fst (call_tool sv fs ''generate_report'' arguments)
       = (case generate_report_body sv arguments of
            Inl e \<Rightarrow> Inr [TextContent (''Error: '' @ exn_text e)] | Inr r \<Rightarrow> Inr r)"
    by (simp add: call_tool_def handle_generate_report_def try_except_def split: sum.splits)
  have c5: "fst (call_tool sv fs ''get_competitor_logs'' arguments)
       = (case get_logs_body sv fs arguments of
            Inl e \<Rightarrow> Inr [TextContent (''Error: '' @ exn_text e)] | Inr r \<Rightarrow> Inr r)"
    by (simp add: call_tool_def handle_get_logs_def try_except_def split: sum.splits)
  have ag: "\<exists>t. fst (generate_report sv fs topic findings format_type) = Inr t"
    unfolding generate_report_def Let_def by (rule try_except_returns)
  show ?thesis
    using every c1 c2 c3 c4 c5 ag by blast
qed

text \<open>
  Failures of four kinds, each ending as a text: a log file that holds an object instead of
  an array, a limit that is a string, the search library missing, and an activity that is
  a number (the entry is stored before the success message fails to format).
\<close>

lemma failures_become_text:
  "call_tool calm_services \<lparr>tracking = JsonFile (PDict []), reports = Map.empty\<rparr>
       ''track_competitor'' [''competitor_name'' \<mapsto> PStr ''Acme Corp'']
     = (Inr [TextContent (''Error: '' @ py_quote ''dict'' @ '' object has no attribute ''
                          @ py_quote ''append'')],
        \<lparr>tracking = JsonFile (PDict []), reports = Map.empty\<rparr>)"
  "call_tool calm_services two_logged ''get_competitor_logs'' [''limit'' \<mapsto> PStr ''5'']
     = (Inr [TextContent (''Error: bad operand type for unary -: '' @ py_quote ''str'')],
        two_logged)"
  "call_tool (calm_services\<lparr>ddgs_import := Some (Exn ''ModuleNotFoundError'' ''No module'')\<rparr>)
       no_files ''web_search'' [''query'' \<mapsto> PStr ''coral'']
     = (Inr [TextContent ''Search error: No module''], no_files)"
  "call_tool calm_services no_files ''track_competitor''
       [''competitor_name'' \<mapsto> PStr ''Acme Corp'', ''activity'' \<mapsto> PInt 7]
     = (Inr [TextContent (''Error: '' @ py_quote ''int'' @ '' object is not subscriptable'')],
        no_files\<lparr>tracking := JsonFile (PList
          [make_entry ''2026-11-03T10:15:30.000123'' (PStr ''Acme Corp'') (PInt 7) (PStr [])])\<rparr>)"
     apply (simp add: call_tool_def handle_track_competitor_def track_competitor_body_def
      append_entry_def read_logs_def try_except_def args_get_def Let_def calm_services_def
      no_attribute_def)
    apply (simp add: call_tool_def handle_get_logs_def get_logs_body_def two_logged_def
      read_logs_def try_except_def args_get_def Let_def calm_services_def bind_res_def)
   apply (simp add: call_tool_def handle_web_search_def web_search_body_def try_except_def)
  apply (simp add: call_tool_def handle_track_competitor_def track_competitor_body_def
      append_entry_def write_logs_def try_except_def args_get_def Let_def calm_services_def
      no_files_def bind_res_def not_subscriptable_def)
  done

subsection \<open>Omitted parameters\<close>

lemma append_entry_no_file:
  "fault_free sv \<Longrightarrow> tracking fs = NoFile \<Longrightarrow>
   append_entry sv fs e = (Inr (), fs\<lparr>tracking := JsonFile (PList [e])\<rparr>)"
  by (simp add: append_entry_def write_logs_def fault_free_def)

lemma append_entry_list:
  "fault_free sv \<Longrightarrow> tracking fs = JsonFile (PList es) \<Longrightarrow>
   append_entry sv fs e = (Inr (), fs\<lparr>tracking := JsonFile (PList (es @ [e]))\<rparr>)"
  by (simp add: append_entry_def write_logs_def read_logs_def fault_free_def)

lemma calm_fault_free: "fault_free calm_services"
  by (simp add: fault_free_def calm_services_def)

lemma filter_hit:
  "k \<in> set xs \<Longrightarrow> P k \<Longrightarrow> \<exists>k' ks. filter P xs = k' # ks \<and> k' \<in> set xs \<and> P k'"
proof -
  assume "k \<in> set xs" and "P k"
  then have "k \<in> set (filter P xs)" by simp
  then obtain k' ks where f: "filter P xs = k' # ks" by (cases "filter P xs") auto
  then have "k' \<in> set (filter P xs)" by simp
  then have "k' \<in> set xs \<and> P k'" by simp
  with f show ?thesis by blast
qed

lemma find_by_key:
  "distinct (map f xs) \<Longrightarrow> t \<in> set xs \<Longrightarrow> find (\<lambda>u. f u = f t) xs = Some t"
  by (induction xs) (auto simp add: image_iff)

lemma schema_names:
  "map schema_name list_tools
     = [''web_search'', ''fetch_url'', ''track_competitor'', ''generate_report'',
        ''get_competitor_logs'']"
  by (simp add: list_tools_def)

lemma find_listed:
  "t \<in> set list_tools \<Longrightarrow> find (\<lambda>u. schema_name u = schema_name t) list_tools = Some t"
  by (rule find_by_key) (simp_all add: schema_names)

text \<open>
  C2. The catalogue declares these parameters required: \<open>query\<close> for \<open>web_search\<close>,
  \<open>url\<close> for \<open>fetch_url\<close>, \<open>competitor_name\<close> and \<open>activity\<close> for
  \<open>track_competitor\<close>, \<open>topic\<close> and \<open>findings\<close> for \<open>generate_report\<close>, none for
  \<open>get_competitor_logs\<close>. For every tool of the catalogue and every argument mapping that
  omits one of its required parameters, invocation fails with the validation error for a
  required parameter that is missing, as a failure result; the handler is not entered, so
  no value is substituted and the files stay as they were. This holds whatever the services
  would do and whatever the remaining checks of the validation are.
\<close>

theorem missing_required_parameter_rejected:
  assumes "t \<in> set list_tools" and "k \<in> set (schema_required t)" and "arguments k = None"
  shows "map (\<lambda>u. (schema_name u, schema_required u)) list_tools
       = [(''web_search'', [''query'']), (''fetch_url'', [''url'']),
          (''track_competitor'', [''competitor_name'', ''activity'']),
          (''generate_report'', [''topic'', ''findings'']),
          (''get_competitor_logs'', [])]
    \<and> (\<exists>k'. k' \<in> set (schema_required t) \<and> arguments k' = None
          \<and> invoke coerce sv fs (schema_name t) arguments = (validation_failure k', fs))"
proof
  show "map (\<lambda>u. (schema_name u, schema_required u)) list_tools
       = [(''web_search'', [''query'']), (''fetch_url'', [''url'']),
          (''track_competitor'', [''competitor_name'', ''activity'']),
          (''generate_report'', [''topic'', ''findings'']),
          (''get_competitor_logs'', [])]"
    by (simp add: list_tools_def)
  from filter_hit [of k "schema_required t" "\<lambda>k. arguments k = None", OF assms(2) assms(3)]
  obtain k' ks where f: "filter (\<lambda>k. arguments k = None) (schema_required t) = k' # ks"
    and m: "k' \<in> set (schema_required t)" "arguments k' = None"
    by blast
  have "invoke coerce sv fs (schema_name t) arguments = (validation_failure k', fs)"
    by (simp add: invoke_def find_listed [OF assms(1)] f)
  with m show "\<exists>k'. k' \<in> set (schema_required t) \<and> arguments k' = None
          \<and> invoke coerce sv fs (schema_name t) arguments = (validation_failure k', fs)"
    by blast
qed

theorem missing_required_parameter_rejected_witness:
  "list_tools ! 2 \<in> set list_tools
   \<and> schema_name (list_tools ! 2) = ''track_competitor''
   \<and> ''competitor_name'' \<in> set (schema_required (list_tools ! 2))
   \<and> invoke (\<lambda>t a. Inr a) calm_services no_files ''track_competitor''
        [''activity'' \<mapsto> PStr ''Launched new feature'']
      = (\<lparr>success = False,
          result_text = ''Input validation error: '' @ py_quote ''competitor_name''
                        @ '' is a required property''\<rparr>,
         no_files)"
proof -
  let ?a = "[''activity'' \<mapsto> PStr ''Launched new feature'']"
  have a: "list_tools ! 2 \<in> set list_tools" by (simp add: list_tools_def)
  have n: "schema_name (list_tools ! 2) = ''track_competitor''" by (simp add: list_tools_def)
  have r: "schema_required (list_tools ! 2) = [''competitor_name'', ''activity'']"
    by (simp add: list_tools_def)
  have b: "''competitor_name'' \<in> set (schema_required (list_tools ! 2))" by (simp add: r)
  have c: "?a ''competitor_name'' = None" by simp
  from missing_required_parameter_rejected [where t = "list_tools ! 2"
      and k = "''competitor_name''" and arguments = ?a and coerce = "\<lambda>t a. Inr a"
      and sv = calm_services and fs = no_files, OF a b c]
  obtain k' where k: "k' \<in> set (schema_required (list_tools ! 2))" "?a k' = None"
    and i: "invoke (\<lambda>t a. Inr a) calm_services no_files (schema_name (list_tools ! 2)) ?a
          = (validation_failure k', no_files)"
    by blast
  from k have "k' = ''competitor_name''" by (auto simp add: r split: if_splits)
  with i n a b show ?thesis by (simp add: validation_failure_def)
qed

subsection \<open>Standalone mode\<close>

text \<open>
  C5. With \<open>CORAL_SSE_URL\<close> unset or empty, whatever the rest of the environment and
  whatever a server would do, the agent's tool list is exactly the native tools, no client
  exists, and the only thing that happens is the standalone notice: no attempt, no wait, no
  failure message.
\<close>

theorem standalone_without_url:
  "create_coralized_agent (env\<lparr>CORAL_SSE_URL := None\<rparr>) server
     = \<lparr>all_tools = native_tools, coral_client = None, trace = [Standalone]\<rparr>
   \<and> create_coralized_agent (env\<lparr>CORAL_SSE_URL := Some []\<rparr>) server
     = \<lparr>all_tools = native_tools, coral_client = None, trace = [Standalone]\<rparr>"
  by (simp add: create_coralized_agent_def build_coral_url_def)

subsection \<open>The connection loop\<close>

lemma build_coral_url_set:
  "CORAL_SSE_URL env = Some u \<Longrightarrow> u \<noteq> [] \<Longrightarrow> \<exists>url. build_coral_url env = Some url \<and> url \<noteq> []"
  by (simp add: build_coral_url_def Let_def)

lemma attempt_failed_tools [simp]: "all_tools (attempt_failed attempt e st) = all_tools st"
  by (simp add: attempt_failed_def)

lemma connect_loop_done: "connect_loop server max_retries st = st"
  by (simp add: connect_loop.simps [of server max_retries st])

text \<open>
  The loop up to its first successful handshake: the tools that handshake returns are
  appended to the list as they are, and the last thing printed is the success line.
\<close>

lemma connect_loop_first_success:
  "attempt \<le> k \<Longrightarrow> k < max_retries \<Longrightarrow> server k = ToolsLoaded ts \<Longrightarrow>
   (\<forall>j. attempt \<le> j \<and> j < k \<longrightarrow> (\<forall>ts'. server j \<noteq> ToolsLoaded ts')) \<Longrightarrow>
   all_tools (connect_loop server attempt st) = all_tools st @ ts
   \<and> last (trace (connect_loop server attempt st)) = Connected (length ts)"
proof (induction server attempt st rule: connect_loop.induct)
  case (1 server attempt st)
  show ?case
  proof (cases "attempt = k")
    case True
    with "1.prems" show ?thesis
      by (simp add: connect_loop.simps [of server k st])
  next
    case False
    with "1.prems" have lt: "attempt < k" "attempt < max_retries" "Suc attempt \<le> k" by auto
    have rest: "\<forall>j. Suc attempt \<le> j \<and> j < k \<longrightarrow> (\<forall>ts'. server j \<noteq> ToolsLoaded ts')"
      using "1.prems"(4) by auto
    from "1.prems"(4) lt have nl: "\<forall>ts'. server attempt \<noteq> ToolsLoaded ts'" by auto
    show ?thesis
    proof (cases "server attempt")
      case (ClientFails e)
      from "1.IH"(1) [OF lt(2) ClientFails lt(3) "1.prems"(2) "1.prems"(3) rest]
      show ?thesis
        using lt(2) ClientFails by (simp add: connect_loop.simps [of server attempt st])
    next
      case (ToolsFail e)
      from "1.IH"(2) [OF lt(2) ToolsFail lt(3) "1.prems"(2) "1.prems"(3) rest]
      show ?thesis
        using lt(2) ToolsFail by (simp add: connect_loop.simps [of server attempt st])
    next
      case (ToolsLoaded x)
      with nl show ?thesis by simp
    qed
  qed
qed

lemma native_names:
  "map tool_name native_tools
     = [''web_search'', ''fetch_url'', ''track_competitor'', ''generate_report'', ''summarize_paper'']"
  by (simp add: native_tools_def)

text \<open>
  C3, as stated, fails: a server that offers a tool named \<open>web_search\<close> gets it into the
  tool list next to the native \<open>web_search\<close>. The names of the list are not distinct, and
  nothing but the usual progress lines is printed.
\<close>

theorem remote_web_search_duplicates_name:
  "all_tools (create_coralized_agent coral_env fails_then_collides)
     = native_tools @ [\<lparr>tool_name = ''web_search'', tool_description = ''Remote search''\<rparr>]
   \<and> \<not> distinct (map tool_name (all_tools (create_coralized_agent coral_env fails_then_collides)))
   \<and> trace (create_coralized_agent coral_env fails_then_collides)
     = [Connecting ''http://localhost:5555/sse?agentId=research_assista'',
        Attempt 0, AttemptFailed 1 5 (Exn ''ConnectionError'' ''refused''), Sleep 5,
        Attempt 1, Connected 1]"
  by (simp add: create_coralized_agent_def build_coral_url_def coral_env_def getenv_default_def
      connect_loop.simps [of _ 0] connect_loop.simps [of _ "Suc 0"] fails_then_collides_def
      attempt_failed_def max_retries_def retry_delay_def native_tools_def py_replace_space_def)

text \<open>
  C3, amended. When the URL is set and attempt \<open>k\<close> is the first whose handshake returns
  tools, the tool list is the native tools followed by exactly those tools, unchecked: the
  native tools keep their places (none is replaced), the last line printed is the success
  line, and the names of the list are distinct if and only if the remote names are distinct
  among themselves and none of them is one of the five native names.
\<close>

theorem remote_tools_appended_unchecked:
  assumes "CORAL_SSE_URL env = Some u" and "u \<noteq> []"
    and "k < max_retries" and "server k = ToolsLoaded coral_tools"
    and "\<forall>j<k. \<forall>ts. server j \<noteq> ToolsLoaded ts"
  shows "all_tools (create_coralized_agent env server) = native_tools @ coral_tools
    \<and> last (trace (create_coralized_agent env server)) = Connected (length coral_tools)
    \<and> (distinct (map tool_name (all_tools (create_coralized_agent env server)))
         \<longleftrightarrow> distinct (map tool_name coral_tools)
           \<and> set (map tool_name coral_tools)
               \<inter> {''web_search'', ''fetch_url'', ''track_competitor'', ''generate_report'',
                    ''summarize_paper''} = {})"
proof -
  from build_coral_url_set [OF assms(1,2)]
  obtain url where url: "build_coral_url env = Some url" "url \<noteq> []" by blast
  let ?st = "\<lparr>all_tools = native_tools, coral_client = None, trace = [Connecting (take 50 url)]\<rparr>"
  have run: "create_coralized_agent env server = connect_loop server 0 ?st"
    using url by (simp add: create_coralized_agent_def)
  have none: "\<forall>j. 0 \<le> j \<and> j < k \<longrightarrow> (\<forall>ts'. server j \<noteq> ToolsLoaded ts')"
    using assms(5) by simp
  from connect_loop_first_success [OF _ assms(3) assms(4) none, of ?st]
  have res: "all_tools (connect_loop server 0 ?st) = native_tools @ coral_tools"
    "last (trace (connect_loop server 0 ?st)) = Connected (length coral_tools)"
    by simp_all
  have d: "distinct (map tool_name (native_tools @ coral_tools))
         \<longleftrightarrow> distinct (map tool_name coral_tools)
           \<and> set (map tool_name coral_tools)
               \<inter> {''web_search'', ''fetch_url'', ''track_competitor'', ''generate_report'',
                    ''summarize_paper''} = {}"
    by (auto simp add: native_names)
  show ?thesis
    unfolding run res using res(2) d by simp
qed

theorem remote_tools_appended_unchecked_witness:
  "CORAL_SSE_URL coral_env = Some ''http://localhost:5555/sse''
   \<and> fails_then_collides 1
       = ToolsLoaded [\<lparr>tool_name = ''web_search'', tool_description = ''Remote search''\<rparr>]
   \<and> all_tools (create_coralized_agent coral_env fails_then_collides)
       = native_tools @ [\<lparr>tool_name = ''web_search'', tool_description = ''Remote search''\<rparr>]
   \<and> last (trace (create_coralized_agent coral_env fails_then_collides)) = Connected 1
   \<and> \<not> distinct (map tool_name (all_tools (create_coralized_agent coral_env fails_then_collides)))"
proof -
  have a: "CORAL_SSE_URL coral_env = Some ''http://localhost:5555/sse''"
    by (simp add: coral_env_def)
  have b: "''http://localhost:5555/sse'' \<noteq> []" by simp
  have c: "1 < max_retries" by (simp add: max_retries_def)
  have d: "fails_then_collides 1
             = ToolsLoaded [\<lparr>tool_name = ''web_search'', tool_description = ''Remote search''\<rparr>]"
    by (simp add: fails_then_collides_def)
  have e: "\<forall>j<1. \<forall>ts. fails_then_collides j \<noteq> ToolsLoaded ts"
    by (simp add: fails_then_collides_def)
  from remote_tools_appended_unchecked [OF a b c d e] a d show ?thesis
    by (simp add: native_tools_def)
qed

text \<open>One failed attempt: the loop goes on with the next, the failure recorded.\<close>

lemma connect_loop_fail_step:
  assumes "attempt < max_retries"
    and "server attempt = ClientFails e \<or> server attempt = ToolsFail e"
  shows "\<exists>c. connect_loop server attempt st
           = connect_loop server (Suc attempt) (attempt_failed attempt e (st\<lparr>coral_client := c\<rparr>))"
proof -
  from assms(2) show ?thesis
  proof
    assume "server attempt = ClientFails e"
    with assms(1) have "connect_loop server attempt st
        = connect_loop server (Suc attempt)
            (attempt_failed attempt e (st\<lparr>coral_client := coral_client st\<rparr>))"
      by (simp add: connect_loop.simps [of server attempt st])
    then show ?thesis by blast
  next
    assume "server attempt = ToolsFail e"
    with assms(1) have "connect_loop server attempt st
        = connect_loop server (Suc attempt)
            (attempt_failed attempt e (st\<lparr>coral_client := Some attempt\<rparr>))"
      by (simp add: connect_loop.simps [of server attempt st])
    then show ?thesis by blast
  qed
qed

text \<open>
  C4. With the URL set and every one of the five handshakes failing (attempt \<open>k\<close> raising
  \<open>errs k\<close>, at the client's construction or at \<open>get_tools\<close>), the agent makes exactly the
  attempts 0 to 4 in order, waits 5 seconds after each of the first four failures and not
  after the last, then prints that it could not connect and goes on: the function returns,
  and its tool list is exactly the native tools.
\<close>

theorem always_failing_endpoint_degrades:
  assumes "CORAL_SSE_URL env = Some u" and "u \<noteq> []"
    and "build_coral_url env = Some url"
    and "\<forall>k<max_retries. server k = ClientFails (errs k) \<or> server k = ToolsFail (errs k)"
  shows "all_tools (create_coralized_agent env server) = native_tools
    \<and> trace (create_coralized_agent env server)
      = [Connecting (take 50 url),
         Attempt 0, AttemptFailed 1 5 (errs 0), Sleep 5,
         Attempt 1, AttemptFailed 2 5 (errs 1), Sleep 5,
         Attempt 2, AttemptFailed 3 5 (errs 2), Sleep 5,
         Attempt 3, AttemptFailed 4 5 (errs 3), Sleep 5,
         Attempt 4, AttemptFailed 5 5 (errs 4), GaveUp]"
proof -
  from build_coral_url_set [OF assms(1,2)] assms(3) have ne: "url \<noteq> []" by simp
  let ?st = "\<lparr>all_tools = native_tools, coral_client = None, trace = [Connecting (take 50 url)]\<rparr>"
  have run: "create_coralized_agent env server = connect_loop server 0 ?st"
    using assms(3) ne by (simp add: create_coralized_agent_def)
  have lt: "0 < max_retries" "1 < max_retries" "2 < max_retries" "3 < max_retries"
    "4 < max_retries"
    by (simp_all add: max_retries_def)
  have f: "\<And>k. k < max_retries \<Longrightarrow> server k = ClientFails (errs k) \<or> server k = ToolsFail (errs k)"
    using assms(4) by blast
  obtain c0 where s0: "connect_loop server 0 ?st
      = connect_loop server (Suc 0) (attempt_failed 0 (errs 0) (?st\<lparr>coral_client := c0\<rparr>))"
    using connect_loop_fail_step [where attempt = 0 and server = server and e = "errs 0"
        and st = "?st", OF lt(1) f [OF lt(1)]]
    by blast
  let ?s1 = "attempt_failed 0 (errs 0) (?st\<lparr>coral_client := c0\<rparr>)"
  obtain c1 where s1: "connect_loop server (Suc 0) ?s1
      = connect_loop server (Suc (Suc 0)) (attempt_failed 1 (errs 1) (?s1\<lparr>coral_client := c1\<rparr>))"
    using connect_loop_fail_step [where attempt = 1 and server = server and e = "errs 1"
        and st = "?s1", OF lt(2) f [OF lt(2)]]
    by auto
  let ?s2 = "attempt_failed 1 (errs 1) (?s1\<lparr>coral_client := c1\<rparr>)"
  obtain c2 where s2: "connect_loop server (Suc (Suc 0)) ?s2
      = connect_loop server 3 (attempt_failed 2 (errs 2) (?s2\<lparr>coral_client := c2\<rparr>))"
    using connect_loop_fail_step [where attempt = 2 and server = server and e = "errs 2"
        and st = "?s2", OF lt(3) f [OF lt(3)]]
    by (auto simp: numeral_3_eq_3 numeral_2_eq_2)
  let ?s3 = "attempt_failed 2 (errs 2) (?s2\<lparr>coral_client := c2\<rparr>)"
  obtain c3 where s3: "connect_loop server 3 ?s3
      = connect_loop server 4 (attempt_failed 3 (errs 3) (?s3\<lparr>coral_client := c3\<rparr>))"
    using connect_loop_fail_step [where attempt = 3 and server = server and e = "errs 3"
        and st = "?s3", OF lt(4) f [OF lt(4)]]
    by (auto simp: eval_nat_numeral)
  let ?s4 = "attempt_failed 3 (errs 3) (?s3\<lparr>coral_client := c3\<rparr>)"
  obtain c4 where s4: "connect_loop server 4 ?s4
      = connect_loop server max_retries (attempt_failed 4 (errs 4) (?s4\<lparr>coral_client := c4\<rparr>))"
    using connect_loop_fail_step [where attempt = 4 and server = server and e = "errs 4"
        and st = "?s4", OF lt(5) f [OF lt(5)]]
    by (auto simp: eval_nat_numeral max_retries_def)
  have fin: "create_coralized_agent env server
      = attempt_failed 4 (errs 4) (?s4\<lparr>coral_client := c4\<rparr>)"
    unfolding run s0 s1 s2 s3 s4 by (rule connect_loop_done)
  show ?thesis
    unfolding fin by (simp add: attempt_failed_def max_retries_def retry_delay_def)
qed

theorem always_failing_endpoint_degrades_witness:
  "CORAL_SSE_URL coral_env = Some ''http://localhost:5555/sse''
   \<and> all_tools (create_coralized_agent coral_env always_refuses) = native_tools
   \<and> trace (create_coralized_agent coral_env always_refuses)
      = [Connecting ''http://localhost:5555/sse?agentId=research_assista'',
         Attempt 0, AttemptFailed 1 5 (Exn ''ConnectionError'' ''refused''), Sleep 5,
         Attempt 1, AttemptFailed 2 5 (Exn ''ConnectionError'' ''refused''), Sleep 5,
         Attempt 2, AttemptFailed 3 5 (Exn ''ConnectionError'' ''refused''), Sleep 5,
         Attempt 3, AttemptFailed 4 5 (Exn ''TimeoutError'' ''timed out''), Sleep 5,
         Attempt 4, AttemptFailed 5 5 (Exn ''ConnectionError'' ''refused''), GaveUp]"
proof -
  have a: "CORAL_SSE_URL coral_env = Some ''http://localhost:5555/sse''"
    by (simp add: coral_env_def)
  have b: "''http://localhost:5555/sse'' \<noteq> []" by simp
  have c: "build_coral_url coral_env
        = Some ''http://localhost:5555/sse?agentId=research_assistant&agentDescription=Research%20assistant%20agent''"
    by (simp add: build_coral_url_def coral_env_def getenv_default_def py_replace_space_def)
  have d: "\<forall>k<max_retries. always_refuses k
              = ClientFails (if k = 3 then Exn ''TimeoutError'' ''timed out''
                             else Exn ''ConnectionError'' ''refused'')
           \<or> always_refuses k
              = ToolsFail (if k = 3 then Exn ''TimeoutError'' ''timed out''
                           else Exn ''ConnectionError'' ''refused'')"
    by (simp add: always_refuses_def)
  from always_failing_endpoint_degrades [OF a b c d] a show ?thesis by simp
qed

subsection \<open>Reading the log\<close>

lemma bind_res_Inr: "bind_res (Inr x) f = f x"
  by (simp add: bind_res_def)

lemma py_in_str_empty [simp]: "py_in_str [] s"
  by (induction s) auto

lemma entry_matches_empty: "entry_matches [] en"
  by (simp add: entry_matches_def py_lower_def)

lemma filter_empty_needle: "filter (entry_matches []) es = es"
  by (simp add: entry_matches_empty)

lemma matches_filter_entry:
  "matches_filter (PStr f) (entry_val en) = Inr (entry_matches f en)"
  by (simp add: matches_filter_def entry_val_def make_entry_def bind_res_def entry_matches_def)

lemma filter_logs_entries:
  "filter_logs (PStr f) (map entry_val es) = Inr (map entry_val (filter (entry_matches f) es))"
  by (induction es) (simp_all add: matches_filter_entry bind_res_def)

lemma format_log_entry: "format_log r (entry_val en) = Inr (listing_line en)"
  by (simp add: format_log_def entry_val_def make_entry_def bind_res_def listing_line_def)

lemma map_res_format_entries:
  "map_res (format_log r) (map entry_val es) = Inr (map listing_line es)"
  by (induction es) (simp_all add: format_log_entry bind_res_def)

lemma seq_from_map: "seq_from k (map g xs) = map g (seq_from k xs)"
  by (simp add: seq_from_def Let_def drop_map)

lemma seq_from_zero: "seq_from 0 xs = xs"
  by (simp add: seq_from_def)

lemma seq_from_whole: "int (length xs) \<le> limit \<Longrightarrow> seq_from (- limit) xs = xs"
  by (simp add: seq_from_def Let_def)

lemma seq_from_last: "0 < limit \<Longrightarrow> seq_from (- limit) xs = drop (length xs - nat limit) xs"
  by (auto simp add: seq_from_def Let_def max_def intro: arg_cong [where f = "\<lambda>n. drop n xs"])

text \<open>
  What \<open>handle_get_logs\<close> computes on a stored array of well-formed entries, for a string
  filter \<open>f\<close> (given, or the default \<open>""\<close>) and an integer limit (given, or the default 50):
  the entries whose competitor contains \<open>f\<close> without regard to case, cut by the slice
  \<open>[-limit:]\<close>, one line each; or the notice that nothing matched.
\<close>

lemma get_logs_selection:
  assumes stored: "tracking fs = JsonFile (PList (map entry_val es))"
    and readable: "log_read_fault sv = None"
    and flt: "args_get arguments ''competitor'' (PStr []) = PStr f"
    and lim: "args_get arguments ''limit'' (PInt 50) = PInt limit"
  shows "get_logs_body sv fs arguments
     = Inr [TextContent
         (if seq_from (- limit) (filter (entry_matches f) es) = [] then ''No matching logs found.''
          else py_join ''\<newline>''
                 (map listing_line (seq_from (- limit) (filter (entry_matches f) es))))]"
proof -
  let ?sel = "seq_from (- limit) (filter (entry_matches f) es)"
  have rd: "read_logs sv fs = Inr (PList (map entry_val es))"
    using stored readable by (simp add: read_logs_def)
  have kept: "(if py_truthy (PStr f)
               then bind_res (py_iter (PList (map entry_val es))) (\<lambda>items.
                      bind_res (filter_logs (PStr f) items) (\<lambda>kept. Inr (PList kept)))
               else Inr (PList (map entry_val es)))
            = Inr (PList (map entry_val (filter (entry_matches f) es)))"
    by (cases "f = []") (simp_all add: bind_res_def filter_logs_entries filter_empty_needle)
  have sl: "py_slice_from (- limit) (PList (map entry_val (filter (entry_matches f) es)))
            = Inr (PList (map entry_val ?sel))"
    by (simp add: seq_from_map)
  have body: "get_logs_body sv fs arguments
     = (if \<not> py_truthy (PList (map entry_val ?sel))
        then Inr [TextContent ''No matching logs found.'']
        else bind_res (py_iter (PList (map entry_val ?sel))) (\<lambda>items.
               bind_res (map_res (format_log (repr_of sv)) items) (\<lambda>formatted.
                 Inr [TextContent (py_join ''\<newline>'' formatted)])))"
    unfolding get_logs_body_def Let_def flt lim
    by (simp only: stored rd bind_res_Inr kept py_neg.simps sl stored.distinct if_False)
  show ?thesis
    unfolding body by (simp add: bind_res_def map_res_format_entries)
qed

lemma fst_handle_get_logs:
  "get_logs_body sv fs a = Inr r \<Longrightarrow> fst (call_tool sv fs ''get_competitor_logs'' a) = Inr r"
  by (simp add: call_tool_def handle_get_logs_def try_except_def)

text \<open>
  For a limit of at least 1 the listing is what the tool's schema promises: the last
  \<open>limit\<close> of the matching entries, in the order they were stored.
\<close>

lemma positive_limit_lists_most_recent:
  assumes "tracking fs = JsonFile (PList (map entry_val es))"
    and "log_read_fault sv = None"
    and "args_get arguments ''competitor'' (PStr []) = PStr f"
    and "args_get arguments ''limit'' (PInt 50) = PInt limit"
    and "0 < limit"
  shows "fst (call_tool sv fs ''get_competitor_logs'' arguments)
     = Inr [TextContent
         (if filter (entry_matches f) es = [] then ''No matching logs found.''
          else py_join ''\<newline>''
                 (map listing_line
                    (drop (length (filter (entry_matches f) es) - nat limit)
                       (filter (entry_matches f) es))))]"
proof -
  let ?m = "filter (entry_matches f) es"
  have s: "seq_from (- limit) ?m = drop (length ?m - nat limit) ?m"
    by (rule seq_from_last [OF assms(5)])
  have e: "(drop (length ?m - nat limit) ?m = []) = (?m = [])"
    using assms(5) by (cases ?m) auto
  have "get_logs_body sv fs arguments
     = Inr [TextContent
         (if ?m = [] then ''No matching logs found.''
          else py_join ''\<newline>'' (map listing_line (drop (length ?m - nat limit) ?m)))]"
    using get_logs_selection [OF assms(1-4)] unfolding s e .
  then show ?thesis by (rule fst_handle_get_logs)
qed

text \<open>
  C7. The claim fails on the code at \<open>limit = 0\<close>: with two entries stored and no filter,
  the most recent 0 entries are none, yet the handler lists both. (For every limit of at
  least 1 the listing is the most recent \<open>limit\<close> matching entries, as
  \<open>positive_limit_lists_most_recent\<close> shows.)
\<close>

theorem limit_zero_lists_everything:
  "fst (call_tool calm_services two_logged ''get_competitor_logs'' [''limit'' \<mapsto> PInt 0])
     = Inr [TextContent
         ''[2026-11-01] Acme Corp: Launched agent SDK...\<newline>[2026-11-02] Globex: Raised prices...'']"
proof -
  have st: "tracking two_logged = JsonFile (PList (map entry_val two_entries))"
    by (simp add: two_logged_def)
  have rd: "log_read_fault calm_services = None" by (simp add: calm_services_def)
  have a1: "args_get [''limit'' \<mapsto> PInt 0] ''competitor'' (PStr []) = PStr []"
    by (simp add: args_get_def)
  have a2: "args_get [''limit'' \<mapsto> PInt 0] ''limit'' (PInt 50) = PInt 0"
    by (simp add: args_get_def)
  from get_logs_selection [OF st rd a1 a2] show ?thesis
    by (simp add: entry_matches_empty seq_from_zero fst_handle_get_logs two_entries_def
        listing_line_def py_join_def)
qed

text \<open>
  On any stored array, well-formed or not, and for any arguments, a limit of 0 gives what
  a limit at least as large as the array gives: the slice takes nothing away.
\<close>

lemma filter_logs_length: "filter_logs f xs = Inr ys \<Longrightarrow> length ys \<le> length xs"
proof (induction xs arbitrary: ys)
  case Nil
  then show ?case by simp
next
  case (Cons x xs)
  from Cons.prems obtain keep rest where
    r: "filter_logs f xs = Inr rest" and ys: "ys = (if keep then x # rest else rest)"
    by (auto simp: bind_res_def split: sum.splits)
  from Cons.IH [OF r] ys show ?case by simp
qed

lemma slice_zero_like_whole:
  "int (length ys) \<le> n \<Longrightarrow> py_slice_from (- 0) (PList ys) = py_slice_from (- n) (PList ys)"
  by (simp add: seq_from_zero seq_from_whole)

lemma limit_zero_like_unbounded:
  assumes "tracking fs = JsonFile (PList xs)" and "int (length xs) \<le> n"
  shows "call_tool sv fs ''get_competitor_logs'' (arguments(''limit'' \<mapsto> PInt 0))
       = call_tool sv fs ''get_competitor_logs'' (arguments(''limit'' \<mapsto> PInt n))"
proof -
  let ?f = "args_get arguments ''competitor'' (PStr [])"
  let ?kept = "(if py_truthy ?f
                then bind_res (py_iter (PList xs)) (\<lambda>items.
                       bind_res (filter_logs ?f items) (\<lambda>kept. Inr (PList kept)))
                else Inr (PList xs))"
  let ?rest = "\<lambda>logs. if \<not> py_truthy logs then Inr [TextContent ''No matching logs found.'']
                   else bind_res (py_iter logs) (\<lambda>items.
                       bind_res (map_res (format_log (repr_of sv)) items) (\<lambda>formatted.
                         Inr [TextContent (py_join ''\<newline>'' formatted)]))"
  have same: "bind_res ?kept (\<lambda>logs. bind_res (py_slice_from (- 0) logs) ?rest)
            = bind_res ?kept (\<lambda>logs. bind_res (py_slice_from (- n) logs) ?rest)"
  proof (cases ?kept)
    case (Inl e)
    then show ?thesis by (simp add: bind_res_def)
  next
    case (Inr logs)
    then obtain ys where ys: "logs = PList ys" "length ys \<le> length xs"
      by (auto simp: bind_res_def split: if_splits sum.splits dest: filter_logs_length)
    with assms(2) have "int (length ys) \<le> n" by simp
    from slice_zero_like_whole [OF this] Inr ys show ?thesis
      by (simp add: bind_res_def)
  qed
  have body: "\<And>k. get_logs_body sv fs (arguments(''limit'' \<mapsto> PInt k))
      = bind_res (read_logs sv fs) (\<lambda>logs.
          bind_res (if py_truthy ?f
                then bind_res (py_iter logs) (\<lambda>items.
                       bind_res (filter_logs ?f items) (\<lambda>kept. Inr (PList kept)))
                else Inr logs) (\<lambda>logs. bind_res (py_slice_from (- k) logs) ?rest))"
  proof -
    fix k
    have a1: "args_get (arguments(''limit'' \<mapsto> PInt k)) ''competitor'' (PStr []) = ?f"
      by (simp add: args_get_def)
    have a2: "args_get (arguments(''limit'' \<mapsto> PInt k)) ''limit'' (PInt 50) = PInt k"
      by (simp add: args_get_def)
    show "get_logs_body sv fs (arguments(''limit'' \<mapsto> PInt k))
      = bind_res (read_logs sv fs) (\<lambda>logs.
          bind_res (if py_truthy ?f
                then bind_res (py_iter logs) (\<lambda>items.
                       bind_res (filter_logs ?f items) (\<lambda>kept. Inr (PList kept)))
                else Inr logs) (\<lambda>logs. bind_res (py_slice_from (- k) logs) ?rest))"
      unfolding get_logs_body_def Let_def a1 a2
      by (simp only: assms(1) stored.distinct if_False py_neg.simps bind_res_Inr)
  qed
  have "get_logs_body sv fs (arguments(''limit'' \<mapsto> PInt 0))
      = get_logs_body sv fs (arguments(''limit'' \<mapsto> PInt n))"
  proof (cases "read_logs sv fs")
    case (Inl e)
    then show ?thesis unfolding body by (simp add: bind_res_def)
  next
    case (Inr logs)
    with assms(1) have "logs = PList xs"
      by (simp add: read_logs_def split: option.splits)
    with Inr same show ?thesis unfolding body by (simp add: bind_res_def)
  qed
  then show ?thesis
    by (simp add: call_tool_def handle_get_logs_def)
qed

text \<open>
  C9. With \<open>limit = 0\<close> the slice \<open>logs[-0:]\<close> is the whole list, so on every stored array
  of entries and for every filter string (given, or the default \<open>""\<close>) the handler lists
  every matching entry, in order; it answers that nothing matched only when no entry
  matches.
\<close>

theorem limit_zero_returns_all:
  assumes "tracking fs = JsonFile (PList (map entry_val es))"
    and "log_read_fault sv = None"
    and "args_get arguments ''competitor'' (PStr []) = PStr f"
    and "arguments ''limit'' = Some (PInt 0)"
  shows "seq_from (- 0) (filter (entry_matches f) es) = filter (entry_matches f) es
    \<and> fst (call_tool sv fs ''get_competitor_logs'' arguments)
      = Inr [TextContent
          (if filter (entry_matches f) es = [] then ''No matching logs found.''
           else py_join ''\<newline>'' (map listing_line (filter (entry_matches f) es)))]"
proof -
  have lim: "args_get arguments ''limit'' (PInt 50) = PInt 0"
    using assms(4) by (simp add: args_get_def)
  from get_logs_selection [OF assms(1) assms(2) assms(3) lim]
  show ?thesis
    by (simp add: seq_from_zero fst_handle_get_logs)
qed

lemma char_of_is: "char_of (n::nat) = c \<longleftrightarrow> n mod 256 = of_char c"
  by (auto simp add: char_of_eq_iff take_bit_eq_mod)

lemma is_char_of: "c = char_of (n::nat) \<longleftrightarrow> n mod 256 = of_char c"
  using char_of_is [of n c] by auto

lemmas lower_eval = py_lower_def py_lower_char_def char_of_is is_char_of

theorem limit_zero_returns_all_witness:
  "tracking two_logged = JsonFile (PList (map entry_val two_entries))
   \<and> filter (entry_matches ''ACME'') two_entries = [two_entries ! 0]
   \<and> fst (call_tool calm_services two_logged ''get_competitor_logs''
            [''competitor'' \<mapsto> PStr ''ACME'', ''limit'' \<mapsto> PInt 0])
      = Inr [TextContent ''[2026-11-01] Acme Corp: Launched agent SDK...'']"
proof -
  have st: "tracking two_logged = JsonFile (PList (map entry_val two_entries))"
    by (simp add: two_logged_def)
  have rd: "log_read_fault calm_services = None" by (simp add: calm_services_def)
  have a1: "args_get [''competitor'' \<mapsto> PStr ''ACME'', ''limit'' \<mapsto> PInt 0] ''competitor''
              (PStr []) = PStr ''ACME''"
    by (simp add: args_get_def)
  have a2: "[''competitor'' \<mapsto> PStr ''ACME'', ''limit'' \<mapsto> PInt 0] ''limit'' = Some (PInt 0)"
    by simp
  have sel: "filter (entry_matches ''ACME'') two_entries = [two_entries ! 0]"
    by (simp add: entry_matches_def two_entries_def lower_eval)
  have line: "listing_line (two_entries ! 0) = ''[2026-11-01] Acme Corp: Launched agent SDK...''"
    by (simp add: two_entries_def listing_line_def)
  have r: "fst (call_tool calm_services two_logged ''get_competitor_logs''
            [''competitor'' \<mapsto> PStr ''ACME'', ''limit'' \<mapsto> PInt 0])
      = Inr [TextContent
          (if filter (entry_matches ''ACME'') two_entries = [] then ''No matching logs found.''
           else py_join ''\<newline>''
                  (map listing_line (filter (entry_matches ''ACME'') two_entries)))]"
    using limit_zero_returns_all [OF st rd a1 a2] by (rule conjunct2)
  show ?thesis
    unfolding r sel using st by (simp add: line py_join_def)
qed

subsection \<open>Writing the log and reading it back\<close>

lemma do_log_entry:
  "snd (append_entry (call_services c) fs (entry_val (logged_entry c))) = fs' \<Longrightarrow>
   fst (append_entry (call_services c) fs (entry_val (logged_entry c))) = Inr () \<Longrightarrow>
   do_log fs c = fs'"
  by (cases "append_entry (call_services c) fs (entry_val (logged_entry c))")
    (simp add: do_log_def call_tool_def handle_track_competitor_def track_competitor_body_def
      track_competitor_def try_except_def args_get_def Let_def entry_val_def logged_entry_def
      bind_res_def)

lemma do_log_first:
  assumes "fault_free (call_services c)" and "tracking fs = NoFile"
  shows "tracking (do_log fs c) = JsonFile (PList (map entry_val [logged_entry c]))"
  using do_log_entry [of c fs] append_entry_no_file [OF assms, of "entry_val (logged_entry c)"]
  by simp

lemma do_log_appends:
  assumes "fault_free (call_services c)" and "tracking fs = JsonFile (PList (map entry_val es))"
  shows "tracking (do_log fs c) = JsonFile (PList (map entry_val (es @ [logged_entry c])))"
  using do_log_entry [of c fs] append_entry_list [OF assms, of "entry_val (logged_entry c)"]
  by simp

lemma foldl_do_log:
  "\<forall>c\<in>set calls. fault_free (call_services c) \<Longrightarrow>
   tracking fs = JsonFile (PList (map entry_val es)) \<Longrightarrow>
   tracking (foldl do_log fs calls)
     = JsonFile (PList (map entry_val (es @ map logged_entry calls)))"
proof (induction calls arbitrary: fs es)
  case Nil
  then show ?case by simp
next
  case (Cons c calls)
  from Cons.prems have ff: "fault_free (call_services c)" by simp
  from Cons.prems have rest: "\<forall>c\<in>set calls. fault_free (call_services c)" by simp
  from Cons.IH [OF rest do_log_appends [OF ff Cons.prems(2)]]
  show ?case by simp
qed

lemma foldl_do_log_from_nothing:
  assumes "\<forall>c\<in>set calls. fault_free (call_services c)" and "tracking fs = NoFile"
    and "calls \<noteq> []"
  shows "tracking (foldl do_log fs calls)
     = JsonFile (PList (map entry_val (map logged_entry calls)))"
proof (cases calls)
  case Nil
  with assms(3) show ?thesis by simp
next
  case (Cons c cs)
  from assms(1) Cons have ff: "fault_free (call_services c)" by simp
  from assms(1) Cons have rest: "\<forall>c\<in>set cs. fault_free (call_services c)" by simp
  have "tracking (do_log fs c) = JsonFile (PList (map entry_val [logged_entry c]))"
    by (rule do_log_first [OF ff assms(2)])
  from foldl_do_log [OF rest this] Cons show ?thesis by simp
qed

text \<open>
  C6, as stated, fails: what \<open>get_competitor_logs\<close> returns is not the entries but one
  text with a line per entry, and the line leaves the source out (and cuts the timestamp
  to its first 10 characters and the activity to its first 80). Two calls that log
  different entries, differing in the source, give different files and the same listing.
\<close>

theorem listing_omits_source:
  "fst (call_tool calm_services (do_log no_files (acme_call True ''https://a.example''))
          ''get_competitor_logs'' Map.empty)
     = Inr [TextContent ''[2026-11-03] Acme Corp: Launched agent SDK...'']
   \<and> fst (call_tool calm_services (do_log no_files (acme_call True ''https://b.example''))
          ''get_competitor_logs'' Map.empty)
     = Inr [TextContent ''[2026-11-03] Acme Corp: Launched agent SDK...'']
   \<and> tracking (do_log no_files (acme_call True ''https://a.example''))
     \<noteq> tracking (do_log no_files (acme_call True ''https://b.example''))"
proof -
  have nf: "tracking no_files = NoFile" by (simp add: no_files_def)
  have ff: "\<And>s. fault_free (call_services (acme_call True s))"
    by (simp add: acme_call_def calm_fault_free)
  have st: "\<And>s. tracking (do_log no_files (acme_call True s))
      = JsonFile (PList (map entry_val [logged_entry (acme_call True s)]))"
    by (rule do_log_first [OF ff nf])
  have rd: "log_read_fault calm_services = None" by (simp add: calm_services_def)
  have a1: "args_get Map.empty ''competitor'' (PStr []) = PStr []" by (simp add: args_get_def)
  have a2: "args_get Map.empty ''limit'' (PInt 50) = PInt 50" by (simp add: args_get_def)
  have line: "\<And>s. listing_line (logged_entry (acme_call True s))
      = ''[2026-11-03] Acme Corp: Launched agent SDK...''"
    by (simp add: listing_line_def logged_entry_def acme_call_def calm_services_def)
  have q: "\<And>s. fst (call_tool calm_services (do_log no_files (acme_call True s))
          ''get_competitor_logs'' Map.empty)
     = Inr [TextContent ''[2026-11-03] Acme Corp: Launched agent SDK...'']"
    using get_logs_selection [OF st rd a1 a2]
    by (simp add: entry_matches_empty seq_from_def fst_handle_get_logs line py_join_def)
  have ne: "tracking (do_log no_files (acme_call True ''https://a.example''))
     \<noteq> tracking (do_log no_files (acme_call True ''https://b.example''))"
    unfolding st by (simp add: entry_val_def make_entry_def logged_entry_def acme_call_def)
  show ?thesis using q ne by simp
qed

text \<open>
  C6, amended. Start with no log file and make N logging calls one after the other,
  each through the server's tool or the agent's function, none meeting a file fault. Then
  the file holds exactly the N entries in the order of the calls, each with the four fields
  as logged and the timestamp the clock's \<open>isoformat()\<close> gave during its call. Reading
  with no filter (absent or \<open>""\<close>) and a limit (given, or the default 50) of at least N
  returns one text of N lines in that order, the line of an entry being \<open>listing_line\<close> of
  it: the first 10 characters of its timestamp, its competitor, the first 80 characters of
  its activity. For N = 0 the text is the notice that no logs were found.
\<close>

theorem logged_entries_listed_in_order:
  assumes "tracking fs = NoFile"
    and "\<forall>c\<in>set calls. fault_free (call_services c)"
    and "log_read_fault sv = None"
    and "args_get arguments ''competitor'' (PStr []) = PStr []"
    and "args_get arguments ''limit'' (PInt 50) = PInt limit"
    and "int (length calls) \<le> limit"
  shows "tracking (foldl do_log fs calls)
      = (if calls = [] then NoFile else JsonFile (PList (map entry_val (map logged_entry calls))))
    \<and> fst (call_tool sv (foldl do_log fs calls) ''get_competitor_logs'' arguments)
      = Inr [TextContent
          (if calls = [] then ''No logs found.''
           else py_join ''\<newline>'' (map listing_line (map logged_entry calls)))]"
proof (cases "calls = []")
  case True
  with assms(1) show ?thesis
    by (simp add: call_tool_def handle_get_logs_def get_logs_body_def try_except_def)
next
  case False
  have st: "tracking (foldl do_log fs calls)
      = JsonFile (PList (map entry_val (map logged_entry calls)))"
    by (rule foldl_do_log_from_nothing [OF assms(2) assms(1) False])
  have whole: "seq_from (- limit) (map logged_entry calls) = map logged_entry calls"
    using assms(6) by (simp add: seq_from_whole)
  from get_logs_selection [OF st assms(3) assms(4) assms(5)] False st
  show ?thesis
    by (simp add: filter_empty_needle whole fst_handle_get_logs)
qed

theorem logged_entries_listed_in_order_witness:
  "tracking (foldl do_log no_files
       [acme_call True ''https://a.example'',
        \<lparr>via_server = False, call_services = calm_services, call_competitor = ''Globex'',
         call_activity = ''Raised prices'', call_source = []\<rparr>])
     = JsonFile (PList
         [PDict [(''timestamp'', PStr ''2026-11-03T10:15:30.000123''),
                 (''competitor'', PStr ''Acme Corp''),
                 (''activity'', PStr ''Launched agent SDK''),
                 (''source'', PStr ''https://a.example'')],
          PDict [(''timestamp'', PStr ''2026-11-03T10:15:30.000123''),
                 (''competitor'', PStr ''Globex''),
                 (''activity'', PStr ''Raised prices''),
                 (''source'', PStr [])]])
   \<and> fst (call_tool calm_services
         (foldl do_log no_files
            [acme_call True ''https://a.example'',
             \<lparr>via_server = False, call_services = calm_services, call_competitor = ''Globex'',
              call_activity = ''Raised prices'', call_source = []\<rparr>])
         ''get_competitor_logs'' Map.empty)
     = Inr [TextContent
         ''[2026-11-03] Acme Corp: Launched agent SDK...\<newline>[2026-11-03] Globex: Raised prices...'']"
proof -
  let ?calls = "[acme_call True ''https://a.example'',
        \<lparr>via_server = False, call_services = calm_services, call_competitor = ''Globex'',
         call_activity = ''Raised prices'', call_source = []\<rparr>]"
  have nf: "tracking no_files = NoFile" by (simp add: no_files_def)
  have ff: "\<forall>c\<in>set ?calls. fault_free (call_services c)"
    by (simp add: acme_call_def calm_fault_free)
  have rd: "log_read_fault calm_services = None" by (simp add: calm_services_def)
  have a1: "args_get Map.empty ''competitor'' (PStr []) = PStr []" by (simp add: args_get_def)
  have a2: "args_get Map.empty ''limit'' (PInt 50) = PInt 50" by (simp add: args_get_def)
  have n: "int (length ?calls) \<le> 50" by simp
  from logged_entries_listed_in_order [OF nf ff rd a1 a2 n] show ?thesis
    by (simp add: entry_val_def make_entry_def logged_entry_def acme_call_def listing_line_def
        py_join_def calm_services_def)
qed

subsection \<open>Report files\<close>






end
